theory Spec2Isabelle
  imports Complex_Main
begin

section \<open>JSON values and the server-sent-event framing\<close>

text \<open>
  The handlers build Python dictionaries and hand them to \<^verbatim>\<open>json.dumps\<close>. A JSON value is
  a datatype; a dictionary keeps its insertion order, so it is an association list.
  \<^verbatim>\<open>json_dumps\<close> follows \<^verbatim>\<open>json.dumps(data, ensure_ascii=False)\<close> with the default
  separators: the characters it escapes are the quote, the backslash and the control
  characters below 0x20.
\<close>

datatype json =
    JNull
  | JBool bool
  | JInt int
  | JStr string
  | JList "json list"
  | JDict "(string \<times> json) list"

definition digit_char :: "nat \<Rightarrow> char" where
  "digit_char d = ''0123456789abcdef'' ! d"

fun digits10 :: "nat \<Rightarrow> string" where
  "digits10 n =
     (if n < 10 then [digit_char n] else digits10 (n div 10) @ [digit_char (n mod 10)])"

declare digits10.simps [simp del]

definition str_int :: "int \<Rightarrow> string" where
  "str_int i = (if i < 0 then CHR ''-'' # digits10 (nat (- i)) else digits10 (nat i))"

definition escape_char :: "char \<Rightarrow> string" where
  "escape_char c =
     (if c = CHR 0x22 then [CHR 0x5C, CHR 0x22]
      else if c = CHR 0x5C then [CHR 0x5C, CHR 0x5C]
      else if c = CHR 0x0A then [CHR 0x5C, CHR ''n'']
      else if c = CHR 0x0D then [CHR 0x5C, CHR ''r'']
      else if c = CHR 0x09 then [CHR 0x5C, CHR ''t'']
      else if c = CHR 0x08 then [CHR 0x5C, CHR ''b'']
      else if c = CHR 0x0C then [CHR 0x5C, CHR ''f'']
      else if (of_char c :: nat) < 32 then
        [CHR 0x5C, CHR ''u'', CHR ''0'', CHR ''0'',
         digit_char ((of_char c :: nat) div 16), digit_char ((of_char c :: nat) mod 16)]
      else [c])"

definition encode_basestring :: "string \<Rightarrow> string" where
  "encode_basestring s = CHR 0x22 # concat (map escape_char s) @ [CHR 0x22]"

fun json_dumps :: "json \<Rightarrow> string"
and dumps_items :: "json list \<Rightarrow> string"
and dumps_members :: "(string \<times> json) list \<Rightarrow> string" where
  "json_dumps JNull = ''null''"
| "json_dumps (JBool b) = (if b then ''true'' else ''false'')"
| "json_dumps (JInt i) = str_int i"
| "json_dumps (JStr s) = encode_basestring s"
| "json_dumps (JList xs) = ''['' @ dumps_items xs @ '']''"
| "json_dumps (JDict kvs) = ''{'' @ dumps_members kvs @ ''}''"
| "dumps_items [] = []"
| "dumps_items [x] = json_dumps x"
| "dumps_items (x # y # ys) = json_dumps x @ '', '' @ dumps_items (y # ys)"
| "dumps_members [] = []"
| "dumps_members [(k, v)] = encode_basestring k @ '': '' @ json_dumps v"
| "dumps_members ((k, v) # kv # kvs) =
     encode_basestring k @ '': '' @ json_dumps v @ '', '' @ dumps_members (kv # kvs)"

text \<open>\<^verbatim>\<open>_sse_format\<close> (messages.py, line 32) and the terminal sentinel, the literal
  \<^verbatim>\<open>"data: [DONE]\n\n"\<close> that both generators and the timeout wrapper yield.\<close>

definition sse_format :: "(string \<times> json) list \<Rightarrow> string" where
  "sse_format data = ''data: '' @ json_dumps (JDict data) @ [CHR 0x0A, CHR 0x0A]"

definition done_sentinel :: string where
  "done_sentinel = ''data: [DONE]'' @ [CHR 0x0A, CHR 0x0A]"

text \<open>Python's \<^verbatim>\<open>None\<close> for an optional string or integer inside a dictionary.\<close>

definition opt_str :: "string option \<Rightarrow> json" where
  "opt_str v = (case v of None \<Rightarrow> JNull | Some s \<Rightarrow> JStr s)"

definition opt_int :: "int option \<Rightarrow> json" where
  "opt_int v = (case v of None \<Rightarrow> JNull | Some i \<Rightarrow> JInt i)"

definition opt_usage :: "(string \<times> int option) list option \<Rightarrow> json" where
  "opt_usage u = (case u of None \<Rightarrow> JNull | Some kvs \<Rightarrow> JDict (map (\<lambda>(k, v). (k, opt_int v)) kvs))"

text \<open>Substring test, used to say that a wire event carries a given text.\<close>

fun is_prefix_of :: "string \<Rightarrow> string \<Rightarrow> bool" where
  "is_prefix_of [] ys = True"
| "is_prefix_of (x # xs) [] = False"
| "is_prefix_of (x # xs) (y # ys) = (x = y \<and> is_prefix_of xs ys)"

fun occurs_in :: "string \<Rightarrow> string \<Rightarrow> bool" where
  "occurs_in xs [] = (xs = [])"
| "occurs_in xs (y # ys) = (is_prefix_of xs (y # ys) \<or> occurs_in xs ys)"


section \<open>Library and configuration parameters\<close>

text \<open>
  \<^verbatim>\<open>uuid.UUID\<close>, \<^verbatim>\<open>str\<close> of a UUID and the built-in \<^verbatim>\<open>hash\<close> belong to the Python
  library, and \<^verbatim>\<open>app.core.config.settings\<close> is not part of the sources: they are parameters
  of the model. A UUID is an abstract identifier; \<^verbatim>\<open>uuid_parse\<close> gives \<^verbatim>\<open>None\<close> where
  \<^verbatim>\<open>uuid.UUID(s)\<close> raises \<^verbatim>\<open>ValueError\<close>.
\<close>

type_synonym uuid = nat

record pylib =
  uuid_parse :: "string \<Rightarrow> uuid option"
  uuid_str :: "uuid \<Rightarrow> string"
  py_hash :: "string \<Rightarrow> int"

record settings =
  USAGE_CALLBACK_URL :: string
  IDEMPOTENCY_TTL_SECONDS :: nat
  CB_FAIL_MAX :: nat
  CB_RESET_TIMEOUT :: nat


section \<open>Provider data (providers/base.py)\<close>

record chat_message_in =
  msg_role :: string
  msg_content :: string

record chat_request =
  req_model :: string
  req_messages :: "chat_message_in list"
  req_temperature :: "real option"
  req_max_tokens :: "int option"
  req_stream :: bool

record chat_response_chunk =
  chunk_id :: string
  chunk_model :: string
  chunk_created :: int
  chunk_delta :: string
  chunk_finish_reason :: "string option"
  chunk_usage :: "(string \<times> int option) list option"

record chat_response_full =
  res_id :: string
  res_model :: string
  res_created :: int
  res_content :: string
  res_finish_reason :: "string option"
  res_usage :: "(string \<times> int option) list option"

text \<open>
  What iterating the provider's chunk sequence does, as seen by the consumer: it delivers
  some chunks and then ends in one of three ways. \<^verbatim>\<open>Raises m\<close> is an exception whose
  \<^verbatim>\<open>str\<close> is \<^verbatim>\<open>m\<close> (also a failure before any chunk); \<^verbatim>\<open>Deadline\<close> is the stream deadline
  passing while the consumer waits for the next chunk, which cancels the wait.
\<close>

datatype stream_end = Exhausted | Raises string | Deadline


section \<open>The chunk loop of event_gen (messages.py, lines 111-131)\<close>

record gen_vars =
  tokens :: nat
  full_content :: string
  last_chunk :: "chat_response_chunk option"

definition gen_init :: gen_vars where
  "gen_init = \<lparr>tokens = 0, full_content = [], last_chunk = None\<rparr>"

definition count_chunk :: "chat_response_chunk \<Rightarrow> gen_vars \<Rightarrow> gen_vars" where
  "count_chunk chunk v =
     (let v1 = (if chunk_delta chunk \<noteq> []
                then v\<lparr>tokens := tokens v + 1, full_content := full_content v @ chunk_delta chunk\<rparr>
                else v)
      in v1\<lparr>last_chunk := Some chunk\<rparr>)"

definition response_data ::
  "pylib \<Rightarrow> uuid option \<Rightarrow> nat \<Rightarrow> chat_response_chunk \<Rightarrow> (string \<times> json) list" where
  "response_data L conversation_id toks chunk =
     [(''id'', JStr (chunk_id chunk)),
      (''model'', JStr (chunk_model chunk)),
      (''created'', JInt (chunk_created chunk)),
      (''delta'', JStr (chunk_delta chunk)),
      (''finish_reason'', opt_str (chunk_finish_reason chunk))]
     @ (case conversation_id of
          None \<Rightarrow> []
        | Some cid \<Rightarrow> if toks = 1 then [(''conversation_id'', JStr (uuid_str L cid))] else [])"

text \<open>The dictionaries the loop formats, one per chunk, and the loop itself, which yields
  each of them through \<^verbatim>\<open>_sse_format\<close>.\<close>

fun chunk_dicts ::
  "pylib \<Rightarrow> uuid option \<Rightarrow> chat_response_chunk list \<Rightarrow> gen_vars \<Rightarrow> (string \<times> json) list list" where
  "chunk_dicts L conversation_id [] v = []"
| "chunk_dicts L conversation_id (chunk # rest) v =
     (let v' = count_chunk chunk v
      in response_data L conversation_id (tokens v') chunk # chunk_dicts L conversation_id rest v')"

fun consume_chunks ::
  "pylib \<Rightarrow> uuid option \<Rightarrow> chat_response_chunk list \<Rightarrow> gen_vars \<Rightarrow> string list \<times> gen_vars" where
  "consume_chunks L conversation_id [] v = ([], v)"
| "consume_chunks L conversation_id (chunk # rest) v =
     (let v' = count_chunk chunk v;
          ev = sse_format (response_data L conversation_id (tokens v') chunk);
          (evs, v'') = consume_chunks L conversation_id rest v'
      in (ev # evs, v''))"

definition has_key :: "string \<Rightarrow> (string \<times> json) list \<Rightarrow> bool" where
  "has_key k d = (map_of d k \<noteq> None)"


section \<open>Persistence (models.py, crud.py)\<close>

text \<open>
  The database is a record of its two tables. \<^verbatim>\<open>uuid4\<close> draws the next unused identifier,
  \<^verbatim>\<open>datetime.utcnow\<close> reads \<^verbatim>\<open>utcnow\<close>. Every \<^verbatim>\<open>session.commit()\<close> can raise: the
  commits are numbered, and \<^verbatim>\<open>commit_faults\<close> lists the numbers of those that do. A failed
  commit leaves the tables as they were.
\<close>

record conversation =
  conv_id :: uuid
  conv_title :: "string option"
  conv_api_key_hash :: "string option"
  conv_created_at :: nat
  conv_updated_at :: nat

record chat_message =
  cm_id :: uuid
  cm_conversation_id :: uuid
  cm_role :: string
  cm_content :: string
  cm_model :: "string option"
  cm_created_at :: nat
  cm_request_id :: "string option"
  cm_finish_reason :: "string option"
  cm_prompt_tokens :: "int option"
  cm_completion_tokens :: "int option"
  cm_total_tokens :: "int option"
  cm_elapsed_ms :: "int option"

record store =
  conversations :: "conversation list"
  chat_messages :: "chat_message list"
  next_uuid :: nat
  utcnow :: nat
  commits :: nat
  commit_faults :: "nat list"

text \<open>The exceptions that leave a handler: a failed commit, an exception of the provider
  with its text, a key missing from a dictionary, and a value that a pydantic model
  refuses.\<close>

datatype error = PersistenceError | ProviderError string | KeyError string | ValidationError

definition commit_raises :: "store \<Rightarrow> bool" where
  "commit_raises s = (commits s \<in> set (commit_faults s))"

definition get_conversation :: "store \<Rightarrow> uuid \<Rightarrow> conversation option" where
  "get_conversation s conversation_id = find (\<lambda>c. conv_id c = conversation_id) (conversations s)"

definition create_conversation ::
  "string option \<Rightarrow> string option \<Rightarrow> store \<Rightarrow> (error + conversation) \<times> store" where
  "create_conversation title api_key_hash s =
     (let db_conversation =
            \<lparr>conv_id = next_uuid s, conv_title = title, conv_api_key_hash = api_key_hash,
             conv_created_at = utcnow s, conv_updated_at = utcnow s\<rparr>;
          s1 = s\<lparr>next_uuid := Suc (next_uuid s), commits := Suc (commits s)\<rparr>
      in if commit_raises s then (Inl PersistenceError, s1)
         else (Inr db_conversation, s1\<lparr>conversations := conversations s @ [db_conversation]\<rparr>))"

definition touch :: "uuid \<Rightarrow> nat \<Rightarrow> conversation \<Rightarrow> conversation" where
  "touch conversation_id t c = (if conv_id c = conversation_id then c\<lparr>conv_updated_at := t\<rparr> else c)"

definition update_conversation ::
  "uuid \<Rightarrow> string option \<Rightarrow> store \<Rightarrow> (error + conversation option) \<times> store" where
  "update_conversation conversation_id title s =
     (case get_conversation s conversation_id of
        None \<Rightarrow> (Inr None, s)
      | Some c \<Rightarrow>
          (let c1 = (case title of None \<Rightarrow> c | Some t \<Rightarrow> c\<lparr>conv_title := Some t\<rparr>);
               c2 = c1\<lparr>conv_updated_at := utcnow s\<rparr>;
               s1 = s\<lparr>commits := Suc (commits s)\<rparr>
           in if commit_raises s then (Inl PersistenceError, s1)
              else (Inr (Some c2),
                    s1\<lparr>conversations :=
                         map (\<lambda>x. if conv_id x = conversation_id then c2 else x) (conversations s)\<rparr>)))"

text \<open>The relationship is declared with \<^verbatim>\<open>cascade_delete=True\<close>: deleting a conversation
  deletes its messages.\<close>

definition delete_conversation :: "uuid \<Rightarrow> store \<Rightarrow> (error + bool) \<times> store" where
  "delete_conversation conversation_id s =
     (case get_conversation s conversation_id of
        None \<Rightarrow> (Inr False, s)
      | Some c \<Rightarrow>
          (let s1 = s\<lparr>commits := Suc (commits s)\<rparr>
           in if commit_raises s then (Inl PersistenceError, s1)
              else (Inr True,
                    s1\<lparr>conversations := filter (\<lambda>x. conv_id x \<noteq> conversation_id) (conversations s),
                       chat_messages :=
                         filter (\<lambda>m. cm_conversation_id m \<noteq> conversation_id) (chat_messages s)\<rparr>)))"

text \<open>\<^verbatim>\<open>create_chat_message\<close> adds the message and bumps the conversation's
  \<^verbatim>\<open>updated_at\<close>. \<^verbatim>\<open>conversation_id\<close> is a foreign key on \<^verbatim>\<open>conversation.id\<close>, so the
  commit of a message whose conversation is gone fails.\<close>

definition create_chat_message ::
  "uuid \<Rightarrow> string \<Rightarrow> string \<Rightarrow> string option \<Rightarrow> string option \<Rightarrow> string option \<Rightarrow>
   int option \<Rightarrow> int option \<Rightarrow> int option \<Rightarrow> int option \<Rightarrow> store \<Rightarrow> (error + chat_message) \<times> store" where
  "create_chat_message conversation_id role content model request_id finish_reason
       prompt_tokens completion_tokens total_tokens elapsed_ms s =
     (let db_message =
            \<lparr>cm_id = next_uuid s, cm_conversation_id = conversation_id, cm_role = role,
             cm_content = content, cm_model = model, cm_created_at = utcnow s,
             cm_request_id = request_id, cm_finish_reason = finish_reason,
             cm_prompt_tokens = prompt_tokens, cm_completion_tokens = completion_tokens,
             cm_total_tokens = total_tokens, cm_elapsed_ms = elapsed_ms\<rparr>;
          s1 = s\<lparr>next_uuid := Suc (next_uuid s), commits := Suc (commits s)\<rparr>
      in if commit_raises s \<or> get_conversation s conversation_id = None
         then (Inl PersistenceError, s1)
         else (Inr db_message,
               s1\<lparr>chat_messages := chat_messages s @ [db_message],
                  conversations := map (touch conversation_id (utcnow s)) (conversations s)\<rparr>))"

definition get_chat_messages :: "uuid \<Rightarrow> nat \<Rightarrow> nat \<Rightarrow> store \<Rightarrow> chat_message list" where
  "get_chat_messages conversation_id skip limit s =
     take limit (drop skip
       (sort_key cm_created_at
          (filter (\<lambda>m. cm_conversation_id m = conversation_id) (chat_messages s))))"

definition get_conversation_with_messages ::
  "uuid \<Rightarrow> store \<Rightarrow> (conversation \<times> chat_message list) option" where
  "get_conversation_with_messages conversation_id s =
     (case get_conversation s conversation_id of
        None \<Rightarrow> None
      | Some c \<Rightarrow> Some (c, get_chat_messages conversation_id 0 1000 s))"


section \<open>The conversation routes (api/routes/conversations.py)\<close>

text \<open>A route either raises \<^verbatim>\<open>HTTPException(status_code, detail)\<close>, lets an exception of
  the persistence layer through, or returns.\<close>

datatype route_error = HTTPException nat string | Unhandled error

definition api_key_or_public :: "string option \<Rightarrow> string" where
  "api_key_or_public x_api_key =
     (case x_api_key of None \<Rightarrow> ''public'' | Some k \<Rightarrow> if k = [] then ''public'' else k)"

definition key_hash :: "pylib \<Rightarrow> string \<Rightarrow> string" where
  "key_hash L api_key = str_int (py_hash L api_key)"

text \<open>The ownership test that the three routes below repeat:
  \<^verbatim>\<open>conversation.api_key_hash and conversation.api_key_hash != api_key_hash\<close>.\<close>

definition access_denied :: "conversation \<Rightarrow> string \<Rightarrow> bool" where
  "access_denied c api_key_hash =
     (case conv_api_key_hash c of
        None \<Rightarrow> False
      | Some h \<Rightarrow> h \<noteq> [] \<and> h \<noteq> api_key_hash)"

definition get_conversation_history ::
  "pylib \<Rightarrow> string \<Rightarrow> string option \<Rightarrow> store \<Rightarrow> route_error + (conversation \<times> nat \<times> chat_message list)" where
  "get_conversation_history L conversation_id x_api_key s =
     (case uuid_parse L conversation_id of
        None \<Rightarrow> Inl (HTTPException 400 ''Invalid conversation ID format'')
      | Some conv_uuid \<Rightarrow>
          (case get_conversation_with_messages conv_uuid s of
             None \<Rightarrow> Inl (HTTPException 404 ''Conversation not found'')
           | Some (c, msgs) \<Rightarrow>
               if access_denied c (key_hash L (api_key_or_public x_api_key))
               then Inl (HTTPException 403 ''Access denied to this conversation'')
               else Inr (c, length msgs, msgs)))"

definition update_conversation_title ::
  "pylib \<Rightarrow> string \<Rightarrow> string \<Rightarrow> string option \<Rightarrow> store \<Rightarrow> (route_error + string) \<times> store" where
  "update_conversation_title L conversation_id title x_api_key s =
     (case uuid_parse L conversation_id of
        None \<Rightarrow> (Inl (HTTPException 400 ''Invalid conversation ID format''), s)
      | Some conv_uuid \<Rightarrow>
          (case get_conversation s conv_uuid of
             None \<Rightarrow> (Inl (HTTPException 404 ''Conversation not found''), s)
           | Some c \<Rightarrow>
               if access_denied c (key_hash L (api_key_or_public x_api_key))
               then (Inl (HTTPException 403 ''Access denied to this conversation''), s)
               else (case update_conversation conv_uuid (Some title) s of
                       (Inl err, s') \<Rightarrow> (Inl (Unhandled err), s')
                     | (Inr None, s') \<Rightarrow> (Inl (HTTPException 404 ''Conversation not found''), s')
                     | (Inr (Some u), s') \<Rightarrow> (Inr (uuid_str L conv_uuid), s'))))"

definition delete_conversation_endpoint ::
  "pylib \<Rightarrow> string \<Rightarrow> string option \<Rightarrow> store \<Rightarrow> (route_error + unit) \<times> store" where
  "delete_conversation_endpoint L conversation_id x_api_key s =
     (case uuid_parse L conversation_id of
        None \<Rightarrow> (Inl (HTTPException 400 ''Invalid conversation ID format''), s)
      | Some conv_uuid \<Rightarrow>
          (case get_conversation s conv_uuid of
             None \<Rightarrow> (Inl (HTTPException 404 ''Conversation not found''), s)
           | Some c \<Rightarrow>
               if access_denied c (key_hash L (api_key_or_public x_api_key))
               then (Inl (HTTPException 403 ''Access denied to this conversation''), s)
               else (case delete_conversation conv_uuid s of
                       (Inl err, s') \<Rightarrow> (Inl (Unhandled err), s')
                     | (Inr ok, s') \<Rightarrow>
                         if ok then (Inr (), s')
                         else (Inl (HTTPException 404 ''Conversation not found''), s'))))"


section \<open>Process state and the environment of one request\<close>

text \<open>
  \<^verbatim>\<open>world\<close> is what the handlers read and change: the database, the idempotency cache
  (key, cached body, expiry time), the clock the cache reads, the limiter registry with the
  number of acquisitions per key, the usage events delivered to the billing collector, the
  log, and the calls made on the provider.

  The cache holds \<^verbatim>\<open>json.dumps(body)\<close> and returns \<^verbatim>\<open>json.loads\<close> of it; the model keeps
  the body itself, the two library functions being inverse on the dictionaries stored here.
  The bound of 5000 entries of the in-memory fallback is not modelled.
\<close>

datatype provider_call = Generate chat_request | GenerateStream chat_request

record world =
  db :: store
  idem_cache :: "(string \<times> json \<times> nat) list"
  now :: nat
  limiters :: "(string \<times> nat) list"
  usage_posts :: "json list"
  log :: "string list"
  provider_calls :: "provider_call list"

text \<open>
  \<^verbatim>\<open>env\<close> is what the outside does during one request: the result of
  \<^verbatim>\<open>provider.generate\<close> (\<^verbatim>\<open>Inl m\<close>: it raises an exception with text \<^verbatim>\<open>m\<close>), the chunks
  and the end of the provider's stream, whether the usage POST fails, whether the stream
  deadline passes while the generator waits for the usage POST, and the two readings of the
  elapsed time.
\<close>

record env =
  gen_result :: "string + chat_response_full"
  stream_chunks :: "chat_response_chunk list"
  stream_ending :: stream_end
  usage_post_fails :: bool
  deadline_in_usage :: bool
  elapsed_save :: int
  elapsed_usage :: int


section \<open>Admission, idempotency, provider resolution, usage\<close>

text \<open>\<^verbatim>\<open>get_limiter\<close> (utils/rate_limit.py) inserts a limiter for an unseen key;
  \<^verbatim>\<open>async with limiter\<close> acquires a slot and never rejects.\<close>

definition admit :: "string \<Rightarrow> world \<Rightarrow> world" where
  "admit key w =
     w\<lparr>limiters :=
         (case map_of (limiters w) key of
            None \<Rightarrow> limiters w @ [(key, 1)]
          | Some n \<Rightarrow> map (\<lambda>(k, c). if k = key then (k, Suc c) else (k, c)) (limiters w))\<rparr>"

definition redis_get :: "string \<Rightarrow> world \<Rightarrow> json option" where
  "redis_get key w =
     (case map_of (idem_cache w) key of
        None \<Rightarrow> None
      | Some (v, expires) \<Rightarrow> if now w < expires then Some v else None)"

definition redis_set :: "settings \<Rightarrow> string \<Rightarrow> json \<Rightarrow> world \<Rightarrow> world" where
  "redis_set st key v w =
     w\<lparr>idem_cache :=
         (key, (v, now w + IDEMPOTENCY_TTL_SECONDS st)) # filter (\<lambda>e. fst e \<noteq> key) (idem_cache w)\<rparr>"

definition get_cached_response :: "string \<Rightarrow> world \<Rightarrow> json option" where
  "get_cached_response key w = redis_get (''idemp:'' @ key) w"

definition set_cached_response :: "settings \<Rightarrow> string \<Rightarrow> json \<Rightarrow> world \<Rightarrow> world" where
  "set_cached_response st key v w = redis_set st (''idemp:'' @ key) v w"

text \<open>Python truth values: an optional string is true when it is present and not empty, a
  dictionary when it has an entry.\<close>

definition truthy_str :: "string option \<Rightarrow> bool" where
  "truthy_str s = (case s of None \<Rightarrow> False | Some x \<Rightarrow> x \<noteq> [])"

definition truthy_json :: "json \<Rightarrow> bool" where
  "truthy_json v =
     (case v of
        JNull \<Rightarrow> False
      | JBool b \<Rightarrow> b
      | JInt i \<Rightarrow> i \<noteq> 0
      | JStr s \<Rightarrow> s \<noteq> []
      | JList xs \<Rightarrow> xs \<noteq> []
      | JDict kvs \<Rightarrow> kvs \<noteq> [])"

definition resolve_provider :: "string \<Rightarrow> string" where
  "resolve_provider model = (if is_prefix_of ''openai:'' model then model else ''openai:'' @ model)"

text \<open>\<^verbatim>\<open>send_usage\<close> (utils/usage_callback.py): nothing without a callback URL; a failed
  POST is logged and ignored.\<close>

definition send_usage :: "settings \<Rightarrow> bool \<Rightarrow> json \<Rightarrow> world \<Rightarrow> world" where
  "send_usage st post_fails payload w =
     (if USAGE_CALLBACK_URL st = [] then w
      else if post_fails then w\<lparr>log := log w @ [''usage_callback_failed'']\<rparr>
      else w\<lparr>usage_posts := usage_posts w @ [payload]\<rparr>)"


section \<open>The streaming generators (messages.py)\<close>

text \<open>
  A generator run to its end gives the strings it yielded and how it ended: it returned, or
  the cancellation of the deadline left it. \<^verbatim>\<open>asyncio.timeout\<close> cancels the coroutine at the
  await where it is suspended; \<^verbatim>\<open>CancelledError\<close> is not an \<^verbatim>\<open>Exception\<close>, so no
  \<^verbatim>\<open>except Exception\<close> clause of the generators or of \<^verbatim>\<open>send_usage\<close> catches it, the
  \<^verbatim>\<open>finally\<close> block runs, and the wrapper receives it as \<^verbatim>\<open>TimeoutError\<close>. The deadline
  fires once. The awaits of \<^verbatim>\<open>event_gen\<close> are the wait for the next chunk and the usage
  POST of its \<^verbatim>\<open>finally\<close> block (which suspends only when a callback URL is configured).
\<close>

datatype gen_exit = Returned | Cancelled

definition error_data :: "string \<Rightarrow> (string \<times> json) list" where
  "error_data e = [(''error'', JStr ''Streaming error occurred''), (''message'', JStr e)]"

text \<open>The first half of the \<^verbatim>\<open>finally\<close> block (lines 146-163): the assistant message is
  saved through a fresh session, inside \<^verbatim>\<open>try ... except Exception\<close>.\<close>

definition save_streamed ::
  "env \<Rightarrow> uuid option \<Rightarrow> chat_request \<Rightarrow> string \<Rightarrow> gen_vars \<Rightarrow> world \<Rightarrow> world" where
  "save_streamed e conversation_id req request_id v w =
     (case conversation_id of
        None \<Rightarrow> w
      | Some cid \<Rightarrow>
          if full_content v = [] then w
          else (case create_chat_message cid ''assistant'' (full_content v)
                       (Some (case last_chunk v of None \<Rightarrow> req_model req | Some c \<Rightarrow> chunk_model c))
                       (Some request_id)
                       (case last_chunk v of None \<Rightarrow> None | Some c \<Rightarrow> chunk_finish_reason c)
                       None None None (Some (elapsed_save e)) (db w) of
                  (Inl err, s') \<Rightarrow> w\<lparr>db := s', log := log w @ [''Error saving message to database'']\<rparr>
                | (Inr m, s') \<Rightarrow> w\<lparr>db := s'\<rparr>))"

definition stream_usage_payload ::
  "pylib \<Rightarrow> env \<Rightarrow> chat_request \<Rightarrow> string \<Rightarrow> string \<Rightarrow> nat \<Rightarrow> json" where
  "stream_usage_payload L e req api_key request_id toks =
     JDict [(''request_id'', JStr request_id),
            (''api_key_hash'', JInt (py_hash L api_key)),
            (''model'', JStr (req_model req)),
            (''stream'', JBool True),
            (''tokens_count_approx'', JInt (int toks)),
            (''elapsed_ms'', JInt (elapsed_usage e))]"

text \<open>The second half (lines 165-177): the usage callback. The deadline can strike here only
  if it has not fired before and the POST really suspends.\<close>

definition usage_cancelled :: "settings \<Rightarrow> env \<Rightarrow> bool" where
  "usage_cancelled st e =
     (stream_ending e \<noteq> Deadline \<and> USAGE_CALLBACK_URL st \<noteq> [] \<and> deadline_in_usage e)"

definition event_gen ::
  "pylib \<Rightarrow> settings \<Rightarrow> env \<Rightarrow> uuid option \<Rightarrow> chat_request \<Rightarrow> string \<Rightarrow> string \<Rightarrow> world \<Rightarrow>
   (string list \<times> gen_exit) \<times> world" where
  "event_gen L st e conversation_id req api_key request_id w =
     (let w0 = w\<lparr>provider_calls := provider_calls w @ [GenerateStream req]\<rparr>;
          (evs, v) = consume_chunks L conversation_id (stream_chunks e) gen_init;
          (closing, w1) =
            (case stream_ending e of
               Exhausted \<Rightarrow> ([done_sentinel], w0)
             | Raises m \<Rightarrow>
                 ([sse_format (error_data m), done_sentinel],
                  w0\<lparr>log := log w0 @ [''Error during streaming'']\<rparr>)
             | Deadline \<Rightarrow> ([], w0));
          w2 = save_streamed e conversation_id req request_id v w1;
          w3 = (if usage_cancelled st e then w2
                else send_usage st (usage_post_fails e)
                       (stream_usage_payload L e req api_key request_id (tokens v)) w2)
      in ((evs @ closing,
           if stream_ending e = Deadline \<or> usage_cancelled st e then Cancelled else Returned),
          w3))"

text \<open>\<^verbatim>\<open>_stream_with_timeout\<close> (lines 35-44) passes on what the generator yields and, on
  \<^verbatim>\<open>TimeoutError\<close>, adds the timeout event and a sentinel. The wrapper itself is suspended
  at its own \<^verbatim>\<open>yield chunk\<close> while the server sends an event to the client; a deadline that
  passes there cancels the task in the server's send and not at an await of the generator,
  and the wrapper then adds neither the timeout event nor a sentinel. The model has no such run: its deadline passes only at one
  of the two awaits of the generator, so what is proved below of every \<^verbatim>\<open>env\<close> is proved of
  the runs in which the sending of an event is not overtaken by the deadline.\<close>

definition stream_with_timeout :: "(string list \<times> gen_exit) \<times> world \<Rightarrow> string list \<times> world" where
  "stream_with_timeout r =
     (case r of
        ((evs, Returned), w) \<Rightarrow> (evs, w)
      | ((evs, Cancelled), w) \<Rightarrow>
          (evs @ [sse_format [(''error'', JStr ''Stream timeout exceeded'')], done_sentinel],
           w\<lparr>log := log w @ [''Streaming timeout exceeded'']\<rparr>))"


section \<open>The canonical handler (messages.py, lines 46-235)\<close>

record messages_request =
  mr_model :: string
  mr_messages :: "chat_message_in list"
  mr_temperature :: "real option"
  mr_max_tokens :: "int option"
  mr_stream :: bool
  mr_conversation_id :: "string option"

datatype response = JSONResponse json | StreamingResponse "string list"

text \<open>Lines 50-54: the cache is read only with a non-empty key on a non-streamed request,
  and only a true cached value is returned.\<close>

definition cache_lookup :: "string option \<Rightarrow> bool \<Rightarrow> world \<Rightarrow> json option" where
  "cache_lookup idem_key stream w =
     (case idem_key of
        None \<Rightarrow> None
      | Some k \<Rightarrow>
          if k = [] \<or> stream then None
          else (case get_cached_response k w of
                  None \<Rightarrow> None
                | Some cached \<Rightarrow> if truthy_json cached then Some cached else None))"

definition make_request :: "messages_request \<Rightarrow> string \<Rightarrow> chat_request" where
  "make_request payload normalized =
     \<lparr>req_model = normalized, req_messages = mr_messages payload,
      req_temperature = mr_temperature payload, req_max_tokens = mr_max_tokens payload,
      req_stream = mr_stream payload\<rparr>"

text \<open>Lines 72-77: the conversation the request names, if it names one that parses and
  exists.\<close>

definition lookup_conversation :: "pylib \<Rightarrow> string option \<Rightarrow> store \<Rightarrow> conversation option" where
  "lookup_conversation L conversation_id s =
     (case conversation_id of
        None \<Rightarrow> None
      | Some x \<Rightarrow>
          if x = [] then None
          else (case uuid_parse L x of
                  None \<Rightarrow> None
                | Some conv_uuid \<Rightarrow> get_conversation s conv_uuid))"

text \<open>Lines 81-87: the title of a new conversation.\<close>

fun first_user_title :: "chat_message_in list \<Rightarrow> string option" where
  "first_user_title [] = None"
| "first_user_title (msg # rest) =
     (if msg_role msg = ''user''
      then Some (if length (msg_content msg) > 100
                 then take 100 (msg_content msg) @ ''...''
                 else msg_content msg)
      else first_user_title rest)"

text \<open>Lines 99-107: the incoming messages are saved one by one; an exception of
  \<^verbatim>\<open>create_chat_message\<close> leaves the loop and the handler.\<close>

fun save_incoming ::
  "uuid \<Rightarrow> string \<Rightarrow> string \<Rightarrow> chat_message_in list \<Rightarrow> store \<Rightarrow> (error + unit) \<times> store" where
  "save_incoming conversation_id normalized request_id [] s = (Inr (), s)"
| "save_incoming conversation_id normalized request_id (msg # rest) s =
     (case create_chat_message conversation_id (msg_role msg) (msg_content msg)
             (Some normalized) (Some request_id) None None None None None s of
        (Inl err, s') \<Rightarrow> (Inl err, s')
      | (Inr m, s') \<Rightarrow> save_incoming conversation_id normalized request_id rest s')"

text \<open>Lines 68-107, for a request with a session.\<close>

definition record_incoming ::
  "pylib \<Rightarrow> messages_request \<Rightarrow> string \<Rightarrow> string \<Rightarrow> string \<Rightarrow> store \<Rightarrow> (error + conversation) \<times> store" where
  "record_incoming L payload api_key request_id normalized s =
     (case (case lookup_conversation L (mr_conversation_id payload) s of
              Some c \<Rightarrow> (Inr c, s)
            | None \<Rightarrow>
                create_conversation (first_user_title (mr_messages payload))
                  (Some (key_hash L api_key)) s) of
        (Inl err, s1) \<Rightarrow> (Inl err, s1)
      | (Inr c, s1) \<Rightarrow>
          (case save_incoming (conv_id c) normalized request_id (mr_messages payload) s1 of
             (Inl err, s2) \<Rightarrow> (Inl err, s2)
           | (Inr u, s2) \<Rightarrow> (Inr c, s2)))"

definition usage_get :: "(string \<times> int option) list option \<Rightarrow> string \<Rightarrow> int option" where
  "usage_get u k =
     (case u of
        None \<Rightarrow> None
      | Some kvs \<Rightarrow> (case map_of kvs k of None \<Rightarrow> None | Some v \<Rightarrow> v))"

text \<open>Lines 210-221: \<^verbatim>\<open>MessagesResponse(...).model_dump()\<close> has all seven fields;
  \<^verbatim>\<open>conversation_id\<close> is overwritten when there is one.\<close>

definition response_body :: "pylib \<Rightarrow> chat_response_full \<Rightarrow> uuid option \<Rightarrow> json" where
  "response_body L res conversation_id =
     JDict [(''id'', JStr (res_id res)),
            (''model'', JStr (res_model res)),
            (''created'', JInt (res_created res)),
            (''content'', JStr (res_content res)),
            (''finish_reason'', opt_str (res_finish_reason res)),
            (''usage'', opt_usage (res_usage res)),
            (''conversation_id'',
               (case conversation_id of None \<Rightarrow> JNull | Some cid \<Rightarrow> JStr (uuid_str L cid)))]"

definition usage_payload ::
  "pylib \<Rightarrow> env \<Rightarrow> chat_request \<Rightarrow> string \<Rightarrow> string \<Rightarrow> chat_response_full \<Rightarrow> json" where
  "usage_payload L e req api_key request_id res =
     JDict [(''request_id'', JStr request_id),
            (''api_key_hash'', JInt (py_hash L api_key)),
            (''model'', JStr (req_model req)),
            (''stream'', JBool False),
            (''usage'', opt_usage (res_usage res)),
            (''elapsed_ms'', JInt (elapsed_usage e))]"

text \<open>Lines 194-208: the assistant message of a buffered response; the call is not inside
  a \<^verbatim>\<open>try\<close>.\<close>

definition save_buffered ::
  "env \<Rightarrow> conversation option \<Rightarrow> string \<Rightarrow> chat_response_full \<Rightarrow> store \<Rightarrow> (error + unit) \<times> store" where
  "save_buffered e conversation request_id res s =
     (case conversation of
        None \<Rightarrow> (Inr (), s)
      | Some c \<Rightarrow>
          (case create_chat_message (conv_id c) ''assistant'' (res_content res)
                  (Some (res_model res)) (Some request_id) (res_finish_reason res)
                  (usage_get (res_usage res) ''prompt_tokens'')
                  (usage_get (res_usage res) ''completion_tokens'')
                  (usage_get (res_usage res) ''total_tokens'')
                  (Some (elapsed_save e)) s of
             (Inl err, s') \<Rightarrow> (Inl err, s')
           | (Inr m, s') \<Rightarrow> (Inr (), s')))"

text \<open>Lines 189-235, the non-stream path.\<close>

definition non_stream_path ::
  "pylib \<Rightarrow> settings \<Rightarrow> env \<Rightarrow> chat_request \<Rightarrow> string \<Rightarrow> string option \<Rightarrow> string \<Rightarrow>
   conversation option \<Rightarrow> world \<Rightarrow> (error + response) \<times> world" where
  "non_stream_path L st e req api_key idem_key request_id conversation w =
     (let w1 = w\<lparr>provider_calls := provider_calls w @ [Generate req]\<rparr>
      in case gen_result e of
           Inl m \<Rightarrow> (Inl (ProviderError m), w1)
         | Inr res \<Rightarrow>
             (case save_buffered e conversation request_id res (db w1) of
                (Inl err, s) \<Rightarrow> (Inl err, w1\<lparr>db := s\<rparr>)
              | (Inr u, s) \<Rightarrow>
                  (let body = response_body L res (map_option conv_id conversation);
                       w2 = w1\<lparr>db := s\<rparr>;
                       w3 = (case idem_key of
                               None \<Rightarrow> w2
                             | Some k \<Rightarrow> if k = [] then w2 else set_cached_response st k body w2);
                       w4 = send_usage st (usage_post_fails e)
                              (usage_payload L e req api_key request_id res) w3
                   in (Inr (JSONResponse body), w4))))"

text \<open>Lines 109-187, the stream path. The response is lazy in the source; the model runs the
  generator to its end, so the world returned includes what the \<^verbatim>\<open>finally\<close> block did.\<close>

definition stream_path ::
  "pylib \<Rightarrow> settings \<Rightarrow> env \<Rightarrow> chat_request \<Rightarrow> string \<Rightarrow> string \<Rightarrow>
   uuid option \<Rightarrow> world \<Rightarrow> (error + response) \<times> world" where
  "stream_path L st e req api_key request_id conversation_id w =
     (case stream_with_timeout (event_gen L st e conversation_id req api_key request_id w) of
        (evs, w') \<Rightarrow> (Inr (StreamingResponse evs), w'))"

text \<open>Lines 56-235: what the handler does when it has not answered from the cache.
  \<^verbatim>\<open>session\<close> says whether a database session was passed.\<close>

definition handle_fresh ::
  "pylib \<Rightarrow> settings \<Rightarrow> env \<Rightarrow> messages_request \<Rightarrow> string \<Rightarrow> string option \<Rightarrow> string \<Rightarrow>
   bool \<Rightarrow> world \<Rightarrow> (error + response) \<times> world" where
  "handle_fresh L st e payload api_key idem_key request_id session w =
     (let normalized = resolve_provider (mr_model payload);
          req = make_request payload normalized
      in case (if session
               then (case record_incoming L payload api_key request_id normalized (db w) of
                       (Inl err, s) \<Rightarrow> (Inl err, s)
                     | (Inr c, s) \<Rightarrow> (Inr (Some c), s))
               else (Inr None, db w)) of
           (Inl err, s) \<Rightarrow> (Inl err, w\<lparr>db := s\<rparr>)
         | (Inr conversation, s) \<Rightarrow>
             if mr_stream payload
             then stream_path L st e req api_key request_id
                    (map_option conv_id conversation) (w\<lparr>db := s\<rparr>)
             else non_stream_path L st e req api_key idem_key request_id
                    conversation (w\<lparr>db := s\<rparr>))"

definition canonical_handler ::
  "pylib \<Rightarrow> settings \<Rightarrow> env \<Rightarrow> messages_request \<Rightarrow> string \<Rightarrow> string option \<Rightarrow> string \<Rightarrow>
   bool \<Rightarrow> world \<Rightarrow> (error + response) \<times> world" where
  "canonical_handler L st e payload api_key idem_key request_id session w =
     (let w1 = admit api_key w
      in case cache_lookup idem_key (mr_stream payload) w1 of
           Some cached \<Rightarrow> (Inr (JSONResponse cached), w1)
         | None \<Rightarrow> handle_fresh L st e payload api_key idem_key request_id session w1)"

text \<open>\<^verbatim>\<open>create_message\<close> (lines 237-247): the canonical endpoint always passes a session.\<close>

definition create_message ::
  "pylib \<Rightarrow> settings \<Rightarrow> env \<Rightarrow> messages_request \<Rightarrow> string \<Rightarrow> string option \<Rightarrow> string option \<Rightarrow>
   world \<Rightarrow> (error + response) \<times> world" where
  "create_message L st e payload request_id idempotency_key x_api_key w =
     canonical_handler L st e payload (api_key_or_public x_api_key) idempotency_key
       request_id True w"


section \<open>The OpenAI-compatible endpoint (messages.py, lines 250-349)\<close>

definition oa_chunk_data :: "chat_response_chunk \<Rightarrow> (string \<times> json) list" where
  "oa_chunk_data chunk =
     [(''id'', JStr (chunk_id chunk)),
      (''object'', JStr ''chat.completion.chunk''),
      (''created'', JInt (chunk_created chunk)),
      (''model'', JStr (chunk_model chunk)),
      (''choices'',
         JList [JDict [(''index'', JInt 0),
                       (''delta'', JDict [(''content'', JStr (chunk_delta chunk))]),
                       (''finish_reason'', opt_str (chunk_finish_reason chunk))]])]"

definition oa_error_data :: "string \<Rightarrow> (string \<times> json) list" where
  "oa_error_data e =
     [(''error'', JDict [(''message'', JStr (''Streaming error: '' @ e)),
                         (''type'', JStr ''streaming_error'')])]"

definition oa_usage_payload :: "pylib \<Rightarrow> chat_request \<Rightarrow> string \<Rightarrow> string \<Rightarrow> nat \<Rightarrow> json" where
  "oa_usage_payload L req api_key request_id toks =
     JDict [(''request_id'', JStr request_id),
            (''api_key_hash'', JInt (py_hash L api_key)),
            (''model'', JStr (req_model req)),
            (''stream'', JBool True),
            (''tokens_count_approx'', JInt (int toks))]"

definition sse_gen ::
  "pylib \<Rightarrow> settings \<Rightarrow> env \<Rightarrow> chat_request \<Rightarrow> string \<Rightarrow> string \<Rightarrow> world \<Rightarrow>
   (string list \<times> gen_exit) \<times> world" where
  "sse_gen L st e req api_key request_id w =
     (let w0 = w\<lparr>provider_calls := provider_calls w @ [GenerateStream req]\<rparr>;
          toks = length (filter (\<lambda>chunk. chunk_delta chunk \<noteq> []) (stream_chunks e));
          evs = map (\<lambda>chunk. sse_format (oa_chunk_data chunk)) (stream_chunks e);
          (closing, w1) =
            (case stream_ending e of
               Exhausted \<Rightarrow> ([done_sentinel], w0)
             | Raises m \<Rightarrow>
                 ([sse_format (oa_error_data m), done_sentinel],
                  w0\<lparr>log := log w0 @ [''Error during OpenAI streaming'']\<rparr>)
             | Deadline \<Rightarrow> ([], w0));
          w2 = (if usage_cancelled st e then w1
                else send_usage st (usage_post_fails e)
                       (oa_usage_payload L req api_key request_id toks) w1)
      in ((evs @ closing,
           if stream_ending e = Deadline \<or> usage_cancelled st e then Cancelled else Returned),
          w2))"

definition chat_completions_stream ::
  "pylib \<Rightarrow> settings \<Rightarrow> env \<Rightarrow> messages_request \<Rightarrow> string \<Rightarrow> string option \<Rightarrow> world \<Rightarrow>
   string list \<times> world" where
  "chat_completions_stream L st e payload request_id x_api_key w =
     (let api_key = api_key_or_public x_api_key;
          model = resolve_provider (mr_model payload);
          req = (make_request payload model)\<lparr>req_stream := True\<rparr>
      in stream_with_timeout (sse_gen L st e req api_key request_id (admit api_key w)))"

text \<open>
  The non-stream path of \<^verbatim>\<open>chat_completions\<close> (lines 334-349) calls the canonical handler
  without a session and wraps the body it returns: \<^verbatim>\<open>payload_json["id"]\<close>,
  \<^verbatim>\<open>["created"]\<close>, \<^verbatim>\<open>["model"]\<close> and \<^verbatim>\<open>["content"]\<close> raise \<^verbatim>\<open>KeyError\<close> when the key
  is missing, \<^verbatim>\<open>.get\<close> gives \<^verbatim>\<open>None\<close>. The pydantic models (schemas.py, lines 34-50) take a
  string for \<^verbatim>\<open>id\<close>, \<^verbatim>\<open>model\<close> and \<^verbatim>\<open>content\<close>, an integer for \<^verbatim>\<open>created\<close>, a string or
  \<^verbatim>\<open>None\<close> for \<^verbatim>\<open>finish_reason\<close> and an integer or \<^verbatim>\<open>None\<close> for the three counters of
  \<^verbatim>\<open>OAUsage\<close>, whose other keys they ignore. A value of another type is an error here; the
  conversions pydantic would still attempt on it (a numeric string for an integer) are not
  modelled, and neither is a cached value that is not a dictionary, which is taken as a
  dictionary without the key. The bodies that the canonical handler builds have the types
  above.
\<close>

definition dict_get :: "json \<Rightarrow> string \<Rightarrow> json option" where
  "dict_get v k = (case v of JDict kvs \<Rightarrow> map_of kvs k | _ \<Rightarrow> None)"

definition str_field :: "json \<Rightarrow> string option" where
  "str_field v = (case v of JStr s \<Rightarrow> Some s | _ \<Rightarrow> None)"

definition int_field :: "json \<Rightarrow> int option" where
  "int_field v = (case v of JInt i \<Rightarrow> Some i | _ \<Rightarrow> None)"

definition opt_str_field :: "json option \<Rightarrow> string option option" where
  "opt_str_field v =
     (case v of
        None \<Rightarrow> Some None
      | Some JNull \<Rightarrow> Some None
      | Some (JStr s) \<Rightarrow> Some (Some s)
      | Some _ \<Rightarrow> None)"

definition opt_int_field :: "json option \<Rightarrow> int option option" where
  "opt_int_field v =
     (case v of
        None \<Rightarrow> Some None
      | Some JNull \<Rightarrow> Some None
      | Some (JInt i) \<Rightarrow> Some (Some i)
      | Some _ \<Rightarrow> None)"

text \<open>\<^verbatim>\<open>OAUsage(**(payload_json.get("usage") or {})).model_dump()\<close>; \<^verbatim>\<open>None\<close> stands for the
  exception raised on a counter of another type, or on a true value that is not a
  dictionary.\<close>

definition oa_usage :: "json \<Rightarrow> json option" where
  "oa_usage payload_json =
     (let u = (case dict_get payload_json ''usage'' of
                 None \<Rightarrow> JDict []
               | Some v \<Rightarrow> if truthy_json v then v else JDict [])
      in case u of
           JDict kvs \<Rightarrow>
             (case opt_int_field (map_of kvs ''prompt_tokens'') of
                None \<Rightarrow> None
              | Some p \<Rightarrow>
                  (case opt_int_field (map_of kvs ''completion_tokens'') of
                     None \<Rightarrow> None
                   | Some c \<Rightarrow>
                       (case opt_int_field (map_of kvs ''total_tokens'') of
                          None \<Rightarrow> None
                        | Some t \<Rightarrow>
                            Some (JDict [(''prompt_tokens'', opt_int p),
                                         (''completion_tokens'', opt_int c),
                                         (''total_tokens'', opt_int t)]))))
         | _ \<Rightarrow> None)"

text \<open>\<^verbatim>\<open>OAChatCompletionResponse(...).model_dump()\<close> of lines 338-349.\<close>

definition oa_response :: "json \<Rightarrow> error + json" where
  "oa_response payload_json =
     (case dict_get payload_json ''id'' of
        None \<Rightarrow> Inl (KeyError ''id'')
      | Some i \<Rightarrow>
     (case dict_get payload_json ''created'' of
        None \<Rightarrow> Inl (KeyError ''created'')
      | Some c \<Rightarrow>
     (case dict_get payload_json ''model'' of
        None \<Rightarrow> Inl (KeyError ''model'')
      | Some m \<Rightarrow>
     (case dict_get payload_json ''content'' of
        None \<Rightarrow> Inl (KeyError ''content'')
      | Some t \<Rightarrow>
     (case str_field i of None \<Rightarrow> Inl ValidationError | Some id_str \<Rightarrow>
     (case int_field c of None \<Rightarrow> Inl ValidationError | Some created \<Rightarrow>
     (case str_field m of None \<Rightarrow> Inl ValidationError | Some model \<Rightarrow>
     (case str_field t of None \<Rightarrow> Inl ValidationError | Some content \<Rightarrow>
     (case opt_str_field (dict_get payload_json ''finish_reason'') of
        None \<Rightarrow> Inl ValidationError
      | Some finish_reason \<Rightarrow>
     (case oa_usage payload_json of
        None \<Rightarrow> Inl ValidationError
      | Some usage \<Rightarrow>
          Inr (JDict [(''id'', JStr id_str),
                      (''object'', JStr ''chat.completion''),
                      (''created'', JInt created),
                      (''model'', JStr model),
                      (''choices'',
                         JList [JDict [(''index'', JInt 0),
                                       (''message'', JDict [(''role'', JStr ''assistant''),
                                                            (''content'', JStr content)]),
                                       (''finish_reason'', opt_str finish_reason)]]),
                      (''usage'', usage)])))))))))))"

text \<open>\<^verbatim>\<open>chat_completions\<close> (lines 250-349). The request of this endpoint has no
  \<^verbatim>\<open>conversation_id\<close>; the canonical request built from it carries the prefixed model name.
  A streamed request goes to \<^verbatim>\<open>sse_gen\<close> and never reaches the canonical handler.\<close>

definition chat_completions ::
  "pylib \<Rightarrow> settings \<Rightarrow> env \<Rightarrow> messages_request \<Rightarrow> string \<Rightarrow> string option \<Rightarrow> string option \<Rightarrow>
   world \<Rightarrow> (error + response) \<times> world" where
  "chat_completions L st e payload request_id idempotency_key x_api_key w =
     (let api_key = api_key_or_public x_api_key;
          canon = payload\<lparr>mr_model := resolve_provider (mr_model payload),
                          mr_conversation_id := None\<rparr>
      in if mr_stream canon
         then (case chat_completions_stream L st e payload request_id x_api_key w of
                 (evs, w') \<Rightarrow> (Inr (StreamingResponse evs), w'))
         else (case canonical_handler L st e canon api_key idempotency_key request_id False w of
                 (Inl err, w') \<Rightarrow> (Inl err, w')
               | (Inr (StreamingResponse evs), w') \<Rightarrow> (Inr (StreamingResponse evs), w')
               | (Inr (JSONResponse body), w') \<Rightarrow>
                   (case oa_response body of
                      Inl err \<Rightarrow> (Inl err, w')
                    | Inr oa \<Rightarrow> (Inr (JSONResponse oa), w'))))"

text \<open>The two POST routes of messages.py.\<close>

datatype endpoint = MessagesRoute | ChatCompletionsRoute

definition serve ::
  "endpoint \<Rightarrow> pylib \<Rightarrow> settings \<Rightarrow> env \<Rightarrow> messages_request \<Rightarrow> string \<Rightarrow> string option \<Rightarrow>
   string option \<Rightarrow> world \<Rightarrow> (error + response) \<times> world" where
  "serve ep L st e payload request_id idempotency_key x_api_key w =
     (case ep of
        MessagesRoute \<Rightarrow> create_message L st e payload request_id idempotency_key x_api_key w
      | ChatCompletionsRoute \<Rightarrow>
          chat_completions L st e payload request_id idempotency_key x_api_key w)"


section \<open>The provider and its resilience decorators (providers/openai_provider.py)\<close>

text \<open>
  \<^verbatim>\<open>generate_stream\<close> (lines 31-60) is an \<^verbatim>\<open>async def\<close> with a \<^verbatim>\<open>yield\<close>: an
  asynchronous generator function. Calling it runs nothing of its body and returns the
  generator object; the body, which opens the upstream stream (the establishment, line 41)
  and relays its events, runs when the consumer iterates, that is inside the
  \<^verbatim>\<open>async for\<close> of \<^verbatim>\<open>event_gen\<close>. The decorators \<^verbatim>\<open>@retry\<close> and
  \<^verbatim>\<open>@openai_breaker\<close> wrap that call.

  Each contact of the vendor API has an outcome chosen by the outside: the chunks it
  delivers and how it ends (a failed establishment delivers none and raises). The provider
  state counts the contacts made and holds the breaker.
\<close>

record contact =
  contact_chunks :: "chat_response_chunk list"
  contact_end :: stream_end

datatype breaker_mode = BreakerClosed | BreakerOpen nat | BreakerHalfOpen

record pstate =
  fail_counter :: nat
  mode :: breaker_mode
  ptime :: nat
  contacts :: nat

datatype async_gen = AsyncGen chat_request

text \<open>
  Modelled from the spec: the retry and circuit-breaker policies, which the source takes from
  the libraries tenacity and pybreaker (not part of the sources). Section 4.4: up to four
  attempts in total, retrying on any exception, a wait between attempts; the breaker opens
  after \<^verbatim>\<open>CB_FAIL_MAX\<close> consecutive failures, rejects at once while open until the cool-down
  has passed, then lets one trial through, whose success closes it and whose failure
  reopens it. Each attempt of the retry passes through the breaker. \<^verbatim>\<open>waits\<close> are the
  effects of the waits between attempts (time passing).
\<close>

fun retrying ::
  "('s \<Rightarrow> 's) list \<Rightarrow> ('s \<Rightarrow> (string + 'a) \<times> 's) \<Rightarrow> 's \<Rightarrow> (string + 'a) \<times> 's" where
  "retrying [] f s = f s"
| "retrying (wait # waits) f s =
     (case f s of
        (Inr v, s') \<Rightarrow> (Inr v, s')
      | (Inl e, s') \<Rightarrow> retrying waits f (wait s'))"

definition on_failure :: "nat \<Rightarrow> pstate \<Rightarrow> pstate" where
  "on_failure fail_max s =
     (if fail_max \<le> Suc (fail_counter s)
      then s\<lparr>fail_counter := Suc (fail_counter s), mode := BreakerOpen (ptime s)\<rparr>
      else s\<lparr>fail_counter := Suc (fail_counter s)\<rparr>)"

definition guarded ::
  "nat \<Rightarrow> (pstate \<Rightarrow> (string + 'a) \<times> pstate) \<Rightarrow> pstate \<Rightarrow> (string + 'a) \<times> pstate" where
  "guarded fail_max f s =
     (case f s of
        (Inr v, s') \<Rightarrow> (Inr v, s'\<lparr>fail_counter := 0, mode := BreakerClosed\<rparr>)
      | (Inl e, s') \<Rightarrow> (Inl e, on_failure fail_max s'))"

definition breaker_call ::
  "settings \<Rightarrow> (pstate \<Rightarrow> (string + 'a) \<times> pstate) \<Rightarrow> pstate \<Rightarrow> (string + 'a) \<times> pstate" where
  "breaker_call st f s =
     (case mode s of
        BreakerOpen since \<Rightarrow>
          if ptime s < since + CB_RESET_TIMEOUT st then (Inl ''circuit breaker open'', s)
          else (case f (s\<lparr>mode := BreakerHalfOpen\<rparr>) of
                  (Inr v, s') \<Rightarrow> (Inr v, s'\<lparr>fail_counter := 0, mode := BreakerClosed\<rparr>)
                | (Inl e, s') \<Rightarrow> (Inl e, s'\<lparr>mode := BreakerOpen (ptime s')\<rparr>))
      | BreakerHalfOpen \<Rightarrow>
          (case f s of
             (Inr v, s') \<Rightarrow> (Inr v, s'\<lparr>fail_counter := 0, mode := BreakerClosed\<rparr>)
           | (Inl e, s') \<Rightarrow> (Inl e, s'\<lparr>mode := BreakerOpen (ptime s')\<rparr>))
      | BreakerClosed \<Rightarrow> guarded (CB_FAIL_MAX st) f s)"

text \<open>The call of the undecorated function: the generator object, nothing else.\<close>

definition generate_stream_raw :: "chat_request \<Rightarrow> pstate \<Rightarrow> (string + async_gen) \<times> pstate" where
  "generate_stream_raw req s = (Inr (AsyncGen req), s)"

text \<open>The decorated method, as \<^verbatim>\<open>event_gen\<close> calls it: \<^verbatim>\<open>stop_after_attempt(4)\<close> leaves
  three waits.\<close>

definition generate_stream ::
  "settings \<Rightarrow> (pstate \<Rightarrow> pstate) list \<Rightarrow> chat_request \<Rightarrow> pstate \<Rightarrow> (string + async_gen) \<times> pstate" where
  "generate_stream st waits req s =
     retrying (take 3 waits) (breaker_call st (generate_stream_raw req)) s"

text \<open>Iterating the generator runs its body: one contact of the upstream.\<close>

definition iterate_gen :: "(nat \<Rightarrow> contact) \<Rightarrow> async_gen \<Rightarrow> pstate \<Rightarrow> contact \<times> pstate" where
  "iterate_gen upstream g s = (upstream (contacts s), s\<lparr>contacts := Suc (contacts s)\<rparr>)"

text \<open>What the \<^verbatim>\<open>async for\<close> of \<^verbatim>\<open>event_gen\<close> (line 116) consumes: it calls the decorated
  method and iterates what it returns; an exception of the call itself is caught by the same
  \<^verbatim>\<open>except Exception\<close>.\<close>

definition provider_stream ::
  "settings \<Rightarrow> (pstate \<Rightarrow> pstate) list \<Rightarrow> (nat \<Rightarrow> contact) \<Rightarrow> chat_request \<Rightarrow> pstate \<Rightarrow>
   contact \<times> pstate" where
  "provider_stream st waits upstream req s =
     (case generate_stream st waits req s of
        (Inl m, s') \<Rightarrow> (\<lparr>contact_chunks = [], contact_end = Raises m\<rparr>, s')
      | (Inr g, s') \<Rightarrow> iterate_gen upstream g s')"

definition with_stream :: "env \<Rightarrow> contact \<Rightarrow> env" where
  "with_stream e c = e\<lparr>stream_chunks := contact_chunks c, stream_ending := contact_end c\<rparr>"


section \<open>Sample inputs\<close>

text \<open>Concrete library functions, settings and requests at which the theorems below are
  evaluated. The sample hash is the length of the key, so \<^verbatim>\<open>alice\<close> and \<^verbatim>\<open>bob\<close> have
  different hashes.\<close>

definition sample_lib :: pylib where
  "sample_lib =
     \<lparr>uuid_parse = (\<lambda>s. if s = ''c0'' then Some 0 else if s = ''c9'' then Some 9 else None),
      uuid_str = (\<lambda>u. ''c'' @ digits10 u),
      py_hash = (\<lambda>s. int (length s))\<rparr>"

definition sample_settings :: settings where
  "sample_settings =
     \<lparr>USAGE_CALLBACK_URL = ''http://billing'', IDEMPOTENCY_TTL_SECONDS = 600,
      CB_FAIL_MAX = 5, CB_RESET_TIMEOUT = 60\<rparr>"

definition empty_store :: store where
  "empty_store =
     \<lparr>conversations = [], chat_messages = [], next_uuid = 0, utcnow = 0, commits = 0,
      commit_faults = []\<rparr>"

definition empty_world :: world where
  "empty_world =
     \<lparr>db = empty_store, idem_cache = [], now = 0, limiters = [], usage_posts = [], log = [],
      provider_calls = []\<rparr>"

definition sample_chunk :: "string \<Rightarrow> chat_response_chunk" where
  "sample_chunk d =
     \<lparr>chunk_id = ''x'', chunk_model = ''m'', chunk_created = 17, chunk_delta = d,
      chunk_finish_reason = None, chunk_usage = None\<rparr>"

definition sample_full :: "string \<Rightarrow> chat_response_full" where
  "sample_full c =
     \<lparr>res_id = ''r'', res_model = ''m'', res_created = 17, res_content = c,
      res_finish_reason = Some ''stop'', res_usage = None\<rparr>"

definition sample_env :: env where
  "sample_env =
     \<lparr>gen_result = Inr (sample_full ''hello''), stream_chunks = [sample_chunk ''hi''],
      stream_ending = Exhausted, usage_post_fails = False, deadline_in_usage = False,
      elapsed_save = 5, elapsed_usage = 6\<rparr>"

definition sample_request :: "bool \<Rightarrow> string option \<Rightarrow> messages_request" where
  "sample_request stream conversation_id =
     \<lparr>mr_model = ''openai:gpt'', mr_messages = [\<lparr>msg_role = ''user'', msg_content = ''hi''\<rparr>],
      mr_temperature = None, mr_max_tokens = None, mr_stream = stream,
      mr_conversation_id = conversation_id\<rparr>"

definition sample_chat_request :: chat_request where
  "sample_chat_request = make_request (sample_request True None) ''openai:gpt''"


section \<open>Notions used in the statements\<close>

text \<open>The title stored for a conversation, the messages stored under it, a stored message
  read back as the role and content of a request message, and what it means that
  \<^verbatim>\<open>uuid4\<close> draws an identifier the database does not hold yet.\<close>

definition stored_title :: "store \<Rightarrow> uuid \<Rightarrow> string option option" where
  "stored_title s u = map_option conv_title (get_conversation s u)"

definition fresh_uuid :: "store \<Rightarrow> bool" where
  "fresh_uuid s =
     (get_conversation s (next_uuid s) = None \<and>
      filter (\<lambda>m. cm_conversation_id m = next_uuid s) (chat_messages s) = [])"

definition as_incoming :: "chat_message \<Rightarrow> chat_message_in" where
  "as_incoming m = \<lparr>msg_role = cm_role m, msg_content = cm_content m\<rparr>"

definition messages_of :: "store \<Rightarrow> uuid \<Rightarrow> chat_message list" where
  "messages_of s u = filter (\<lambda>m. cm_conversation_id m = u) (chat_messages s)"


text \<open>An event of the wire is an error event when its payload is a dictionary whose first
  key is \<^verbatim>\<open>error\<close>.\<close>

definition is_error_event :: "string \<Rightarrow> bool" where
  "is_error_event ev = is_prefix_of (''data: {'' @ [CHR 0x22] @ ''error'' @ [CHR 0x22]) ev"

text \<open>The cache record of a key, if there is one, has not expired at time \<^verbatim>\<open>t\<close>.\<close>

definition within_ttl :: "string \<Rightarrow> nat \<Rightarrow> world \<Rightarrow> bool" where
  "within_ttl k t w =
     (case map_of (idem_cache w) (''idemp:'' @ k) of
        None \<Rightarrow> True
      | Some (v, expires) \<Rightarrow> t < expires)"

text \<open>A later state of the database that kept the fault schedule, the conversations present
  and their titles, and only appended messages.\<close>

definition db_extends :: "store \<Rightarrow> store \<Rightarrow> bool" where
  "db_extends s s' =
     (commit_faults s' = commit_faults s
      \<and> (\<forall>u. stored_title s' u = stored_title s u)
      \<and> (\<forall>u. (get_conversation s' u = None) = (get_conversation s u = None))
      \<and> (\<exists>rest. chat_messages s' = chat_messages s @ rest))"


definition titled_request :: "string \<Rightarrow> messages_request" where
  "titled_request c =
     \<lparr>mr_model = ''gpt'',
      mr_messages = [\<lparr>msg_role = ''system'', msg_content = ''be brief''\<rparr>,
                     \<lparr>msg_role = ''user'', msg_content = c\<rparr>],
      mr_temperature = None, mr_max_tokens = None, mr_stream = False,
      mr_conversation_id = None\<rparr>"

definition cached_world :: world where
  "cached_world = empty_world\<lparr>idem_cache := [(''idemp:k1'', JDict [(''id'', JStr ''r'')], 600)]\<rparr>"


definition alice_store :: store where
  "alice_store =
     \<lparr>conversations =
        [\<lparr>conv_id = 0, conv_title = Some ''private'',
          conv_api_key_hash = Some (key_hash sample_lib ''alice''),
          conv_created_at = 0, conv_updated_at = 0\<rparr>],
      chat_messages = [], next_uuid = 1, utcnow = 0, commits = 0, commit_faults = []\<rparr>"

text \<open>Two requests under one idempotency key: a first request that succeeds, a first request
  whose provider call fails followed by a second one, and two requests under an empty
  key.\<close>

definition first_exchange :: "(error + response) \<times> world" where
  "first_exchange =
     canonical_handler sample_lib sample_settings sample_env (sample_request False None)
       ''public'' (Some ''k1'') ''req-1'' True empty_world"

definition failed_exchange :: "(error + response) \<times> world" where
  "failed_exchange =
     canonical_handler sample_lib sample_settings (sample_env\<lparr>gen_result := Inl ''upstream down''\<rparr>)
       (sample_request False None) ''public'' (Some ''k1'') ''req-1'' True empty_world"

definition retry_exchange :: "(error + response) \<times> world" where
  "retry_exchange =
     canonical_handler sample_lib sample_settings sample_env (sample_request False None)
       ''public'' (Some ''k1'') ''req-2'' True (snd failed_exchange)"

definition blank_key_exchange :: "(error + response) \<times> world" where
  "blank_key_exchange =
     canonical_handler sample_lib sample_settings sample_env (sample_request False None)
       ''public'' (Some []) ''req-1'' True empty_world"

definition blank_key_replay :: "(error + response) \<times> world" where
  "blank_key_replay =
     canonical_handler sample_lib sample_settings
       (sample_env\<lparr>gen_result := Inr (sample_full ''other'')\<rparr>) (sample_request False None)
       ''public'' (Some []) ''req-2'' True (snd blank_key_exchange)"

text \<open>Two more second requests under the key of \<^verbatim>\<open>first_exchange\<close>. One has looked the key
  up before the first request wrote its record: it runs on the state the first request
  left, with the cache as it was before. The other comes after the first request, on the
  OpenAI-compatible endpoint.\<close>

definition overlapping_exchange :: "(error + response) \<times> world" where
  "overlapping_exchange =
     canonical_handler sample_lib sample_settings
       (sample_env\<lparr>gen_result := Inr (sample_full ''other'')\<rparr>) (sample_request False None)
       ''public'' (Some ''k1'') ''req-2'' True
       ((snd first_exchange)\<lparr>idem_cache := idem_cache empty_world\<rparr>)"

definition cross_endpoint_replay :: "(error + response) \<times> world" where
  "cross_endpoint_replay =
     chat_completions sample_lib sample_settings sample_env (sample_request False None)
       ''req-2'' (Some ''k1'') None (snd first_exchange)"

text \<open>A request under another key that comes after \<^verbatim>\<open>first_exchange\<close>.\<close>

definition intervening_exchange :: "(error + response) \<times> world" where
  "intervening_exchange =
     canonical_handler sample_lib sample_settings
       (sample_env\<lparr>gen_result := Inr (sample_full ''other'')\<rparr>) (sample_request False None)
       ''public'' (Some ''k2'') ''req-9'' True (snd first_exchange)"

text \<open>The first request of a pair on the OpenAI-compatible endpoint.\<close>

definition first_completion :: "(error + response) \<times> world" where
  "first_completion =
     chat_completions sample_lib sample_settings sample_env (sample_request False None)
       ''req-1'' (Some ''k1'') None empty_world"

text \<open>An upstream whose first contact fails at establishment and whose later contacts
  deliver one chunk, a closed breaker, and a wait between attempts.\<close>

definition flaky_upstream :: "nat \<Rightarrow> contact" where
  "flaky_upstream n =
     (if n = 0 then \<lparr>contact_chunks = [], contact_end = Raises ''connection reset''\<rparr>
      else \<lparr>contact_chunks = [sample_chunk ''hi''], contact_end = Exhausted\<rparr>)"

definition closed_breaker :: pstate where
  "closed_breaker = \<lparr>fail_counter = 0, mode = BreakerClosed, ptime = 0, contacts = 0\<rparr>"

definition backoff :: "pstate \<Rightarrow> pstate" where
  "backoff s = s\<lparr>ptime := Suc (ptime s)\<rparr>"

text \<open>
  Modelled from the spec: stream establishment under the two policies, as section 4.4
  describes it ("for streaming calls, resilience covers stream establishment"). One attempt
  is one contact of the upstream; it fails when the contact delivers nothing and raises.
  The definition is used only to say what the claim expects, next to what
  \<^verbatim>\<open>provider_stream\<close> does.
\<close>

definition establish ::
  "(nat \<Rightarrow> contact) \<Rightarrow> chat_request \<Rightarrow> pstate \<Rightarrow> (string + contact) \<times> pstate" where
  "establish upstream req s =
     (let c = upstream (contacts s); s' = s\<lparr>contacts := Suc (contacts s)\<rparr>
      in case contact_chunks c of
           [] \<Rightarrow> (case contact_end c of Raises m \<Rightarrow> (Inl m, s') | _ \<Rightarrow> (Inr c, s'))
         | _ \<Rightarrow> (Inr c, s'))"

definition spec_resilient_stream ::
  "settings \<Rightarrow> (pstate \<Rightarrow> pstate) list \<Rightarrow> (nat \<Rightarrow> contact) \<Rightarrow> chat_request \<Rightarrow> pstate \<Rightarrow>
   contact \<times> pstate" where
  "spec_resilient_stream st waits upstream req s =
     (case retrying (take 3 waits) (breaker_call st (establish upstream req)) s of
        (Inl m, s') \<Rightarrow> (\<lparr>contact_chunks = [], contact_end = Raises m\<rparr>, s')
      | (Inr c, s') \<Rightarrow> (c, s'))"



section \<open>Properties of the streaming generators\<close>

lemma sse_format_not_done: "sse_format d \<noteq> done_sentinel"
  by (simp add: sse_format_def done_sentinel_def)

lemma consume_chunks_dicts:
  "fst (consume_chunks L cid cs v) = map sse_format (chunk_dicts L cid cs v)"
  by (induction cs arbitrary: v) (simp_all add: Let_def case_prod_beta)

lemma count_sse: "count_list (map sse_format ds) done_sentinel = 0"
  by (induction ds) (auto simp: sse_format_not_done)

text \<open>What \<^verbatim>\<open>event_gen\<close> yields: one event per chunk, then the closing events of its exit
  path.\<close>

lemma event_gen_events:
  "fst (fst (event_gen L st e cid req k rid w)) =
     map sse_format (chunk_dicts L cid (stream_chunks e) gen_init) @
     (case stream_ending e of
        Exhausted \<Rightarrow> [done_sentinel]
      | Raises m \<Rightarrow> [sse_format (error_data m), done_sentinel]
      | Deadline \<Rightarrow> [])"
  by (cases "stream_ending e")
     (simp_all add: event_gen_def Let_def case_prod_beta consume_chunks_dicts)

text \<open>The number of sentinels on the wire, for every run of the model (a deadline that
  overtakes the sending of an event is not among them): one, unless the deadline strikes
  during the usage callback of the \<^verbatim>\<open>finally\<close> block, after \<^verbatim>\<open>event_gen\<close> has already
  yielded its sentinel; then the wrapper adds a second one.\<close>

lemma event_gen_sentinels:
  "count_list (fst (stream_with_timeout (event_gen L st e cid req k rid w))) done_sentinel =
     (if usage_cancelled st e then 2 else 1)"
proof -
  have evs: "count_list (fst (consume_chunks L cid (stream_chunks e) gen_init)) done_sentinel = 0"
    by (simp add: consume_chunks_dicts count_sse)
  show ?thesis
    using evs
    by (cases "stream_ending e")
       (simp_all add: event_gen_def stream_with_timeout_def Let_def case_prod_beta
          usage_cancelled_def sse_format_not_done)
qed

text \<open>
  Claim C1 (exactly one terminal sentinel on every exit path) fails on the code. The provider
  delivers one chunk and is exhausted, \<^verbatim>\<open>event_gen\<close> yields the sentinel, and the deadline
  passes while its \<^verbatim>\<open>finally\<close> block waits for the usage POST: the wire carries the
  sentinel, then the timeout event, then a second sentinel.
\<close>

theorem C1_two_sentinels_when_deadline_hits_usage_callback:
  "fst (stream_with_timeout
          (event_gen sample_lib sample_settings (sample_env\<lparr>deadline_in_usage := True\<rparr>) None
             sample_chat_request ''public'' ''req-1'' empty_world))
     = [sse_format (response_data sample_lib None 1 (sample_chunk ''hi'')),
        done_sentinel,
        sse_format [(''error'', JStr ''Stream timeout exceeded'')],
        done_sentinel]"
  by (simp add: event_gen_def stream_with_timeout_def usage_cancelled_def sample_env_def
        sample_settings_def Let_def gen_init_def count_chunk_def sample_chunk_def)

text \<open>The chunk events and the sentinel are not error events; the event a generator
  yields on an exception is one.\<close>

lemma chunk_event_not_error: "\<not> is_error_event (sse_format (response_data L cid n c))"
  by (simp add: is_error_event_def sse_format_def response_data_def encode_basestring_def
        escape_char_def)

lemma oa_chunk_event_not_error: "\<not> is_error_event (sse_format (oa_chunk_data c))"
  by (simp add: is_error_event_def sse_format_def oa_chunk_data_def encode_basestring_def
        escape_char_def)

lemma error_event_is_error: "is_error_event (sse_format (error_data m))"
  by (simp add: is_error_event_def sse_format_def error_data_def encode_basestring_def
        escape_char_def)

lemma oa_error_event_is_error: "is_error_event (sse_format (oa_error_data m))"
  by (simp add: is_error_event_def sse_format_def oa_error_data_def encode_basestring_def
        escape_char_def)

lemma done_not_error: "\<not> is_error_event done_sentinel"
  by (simp add: is_error_event_def done_sentinel_def)

lemma chunk_dicts_no_error:
  "filter is_error_event (map sse_format (chunk_dicts L cid cs v)) = []"
  by (induction cs arbitrary: v) (simp_all add: Let_def chunk_event_not_error)

lemma oa_chunks_no_error:
  "filter is_error_event (map (\<lambda>chunk. sse_format (oa_chunk_data chunk)) cs) = []"
  by (induction cs) (simp_all add: oa_chunk_event_not_error)

text \<open>
  Claim C2, as amended: when the provider's chunk sequence raises an exception with text
  \<^verbatim>\<open>m\<close> and the deadline does not pass before the stream is finished (in the model it
  can still pass during the usage callback that follows the exception), the wire carries,
  after the chunk events, exactly one error event immediately followed by the
  terminal sentinel, and nothing after it; the error event carries the fixed label together
  with the exception's text (under \<^verbatim>\<open>message\<close>; on the OpenAI-compatible endpoint after
  the prefix \<^verbatim>\<open>Streaming error: \<close>). The wire is what \<^verbatim>\<open>_stream_with_timeout\<close> passes on
  of the generator of either endpoint.
\<close>

theorem C2_error_event_then_sentinel:
  assumes "stream_ending e = Raises m" and "\<not> usage_cancelled st e"
  shows "fst (stream_with_timeout (event_gen L st e cid req k rid w)) =
           map sse_format (chunk_dicts L cid (stream_chunks e) gen_init) @
           [sse_format [(''error'', JStr ''Streaming error occurred''), (''message'', JStr m)],
            done_sentinel]
       \<and> fst (stream_with_timeout (sse_gen L st e req k rid w)) =
           map (\<lambda>chunk. sse_format (oa_chunk_data chunk)) (stream_chunks e) @
           [sse_format [(''error'', JDict [(''message'', JStr (''Streaming error: '' @ m)),
                                           (''type'', JStr ''streaming_error'')])],
            done_sentinel]
       \<and> length (filter is_error_event
                    (fst (stream_with_timeout (event_gen L st e cid req k rid w)))) = 1
       \<and> length (filter is_error_event
                    (fst (stream_with_timeout (sse_gen L st e req k rid w)))) = 1"
proof -
  have a: "fst (stream_with_timeout (event_gen L st e cid req k rid w)) =
           map sse_format (chunk_dicts L cid (stream_chunks e) gen_init) @
           [sse_format (error_data m), done_sentinel]"
    using assms
    by (simp add: event_gen_def stream_with_timeout_def Let_def case_prod_beta
          consume_chunks_dicts)
  have b: "fst (stream_with_timeout (sse_gen L st e req k rid w)) =
           map (\<lambda>chunk. sse_format (oa_chunk_data chunk)) (stream_chunks e) @
           [sse_format (oa_error_data m), done_sentinel]"
    using assms by (simp add: sse_gen_def stream_with_timeout_def Let_def)
  have c: "length (filter is_error_event
                    (fst (stream_with_timeout (event_gen L st e cid req k rid w)))) = 1"
    unfolding a
    by (simp add: chunk_dicts_no_error error_event_is_error done_not_error)
  have d: "length (filter is_error_event
                    (fst (stream_with_timeout (sse_gen L st e req k rid w)))) = 1"
    unfolding b
    by (simp add: oa_chunks_no_error oa_error_event_is_error done_not_error)
  show ?thesis
    using a b c d by (simp add: error_data_def oa_error_data_def)
qed

text \<open>The theorem at a stream that delivers one chunk and then raises.\<close>

theorem C2_error_event_then_sentinel_witness:
  "fst (stream_with_timeout
          (event_gen sample_lib sample_settings (sample_env\<lparr>stream_ending := Raises ''boom''\<rparr>)
             None sample_chat_request ''public'' ''req-1'' empty_world)) =
     [sse_format (response_data sample_lib None 1 (sample_chunk ''hi'')),
      sse_format [(''error'', JStr ''Streaming error occurred''), (''message'', JStr ''boom'')],
      done_sentinel]"
proof -
  have 1: "stream_ending (sample_env\<lparr>stream_ending := Raises ''boom''\<rparr>) = Raises ''boom''"
    by simp
  have 2: "\<not> usage_cancelled sample_settings (sample_env\<lparr>stream_ending := Raises ''boom''\<rparr>)"
    by (simp add: usage_cancelled_def sample_env_def)
  have 3: "chunk_dicts sample_lib None
             (stream_chunks (sample_env\<lparr>stream_ending := Raises ''boom''\<rparr>)) gen_init
           = [response_data sample_lib None 1 (sample_chunk ''hi'')]"
    by (simp add: sample_env_def Let_def gen_init_def count_chunk_def sample_chunk_def)
  show ?thesis
    using C2_error_event_then_sentinel
            [OF 1 2, of sample_lib None sample_chat_request "''public''" "''req-1''"
                empty_world, THEN conjunct1]
    by (simp only: 3 list.map append.simps)
qed

text \<open>Claim C2 as stated (no raw exception detail in the error event) fails. The provider
  delivers one chunk and then raises an exception whose text holds a secret: the second
  event on the wire is the error event, and the text of the exception is in it.\<close>

theorem C2_exception_text_on_the_wire:
  "fst (stream_with_timeout
          (event_gen sample_lib sample_settings
             (sample_env\<lparr>stream_ending := Raises ''password=hunter2''\<rparr>)
             None sample_chat_request ''public'' ''req-1'' empty_world)) =
     [sse_format (response_data sample_lib None 1 (sample_chunk ''hi'')),
      sse_format [(''error'', JStr ''Streaming error occurred''),
                  (''message'', JStr ''password=hunter2'')],
      done_sentinel]
   \<and> occurs_in ''password=hunter2''
        (sse_format [(''error'', JStr ''Streaming error occurred''),
                     (''message'', JStr ''password=hunter2'')])"
  by (simp add: event_gen_def stream_with_timeout_def usage_cancelled_def sample_env_def
        sample_settings_def Let_def gen_init_def count_chunk_def sample_chunk_def error_data_def
        sse_format_def encode_basestring_def escape_char_def)

text \<open>
  Claim C3 (the first chunk carries \<^verbatim>\<open>conversation_id\<close> iff a conversation was resolved,
  no later chunk carries it) fails on the code: the test is \<^verbatim>\<open>tokens == 1\<close>, and
  \<^verbatim>\<open>tokens\<close> counts the chunks with a non-empty delta. With a conversation resolved and the
  deltas empty, \<^verbatim>\<open>hi\<close>, empty, the first chunk goes out without the field and the second
  and the third with it.
\<close>

theorem C3_conversation_id_follows_token_count:
  "map (has_key ''conversation_id'')
     (chunk_dicts sample_lib (Some 7)
        [sample_chunk [], sample_chunk ''hi'', sample_chunk []] gen_init)
     = [False, True, True]
   \<and> fst (fst (event_gen sample_lib sample_settings
                 (sample_env\<lparr>stream_chunks := [sample_chunk [], sample_chunk ''hi'', sample_chunk []]\<rparr>)
                 (Some 7) sample_chat_request ''public'' ''req-1'' empty_world))
     = map sse_format
         (chunk_dicts sample_lib (Some 7)
            [sample_chunk [], sample_chunk ''hi'', sample_chunk []] gen_init)
       @ [done_sentinel]"
  by (simp add: event_gen_events sample_env_def has_key_def response_data_def count_chunk_def
        gen_init_def sample_chunk_def Let_def)

section \<open>Properties of the persistence layer\<close>

subsection \<open>Admission\<close>

lemma admit_frame [simp]:
  "db (admit k w) = db w" "idem_cache (admit k w) = idem_cache w" "now (admit k w) = now w"
  "usage_posts (admit k w) = usage_posts w" "log (admit k w) = log w"
  "provider_calls (admit k w) = provider_calls w"
  by (simp_all add: admit_def)

lemma get_cached_admit [simp]: "get_cached_response k (admit a w) = get_cached_response k w"
  by (simp add: get_cached_response_def redis_get_def cong: option.case_cong)

subsection \<open>Saving one message\<close>

lemma find_touch:
  "find (\<lambda>c. conv_id c = u) (map (touch cid t) cs) = map_option (touch cid t) (find (\<lambda>c. conv_id c = u) cs)"
  by (induction cs) (auto simp: touch_def)

lemma ccm_faults [simp]:
  "commit_faults (snd (create_chat_message cid r c m rid fr pt ct tt el s)) = commit_faults s"
  by (simp add: create_chat_message_def Let_def)

lemma ccm_exists [simp]:
  "(get_conversation (snd (create_chat_message cid r c m rid fr pt ct tt el s)) u = None)
     = (get_conversation s u = None)"
  by (simp add: create_chat_message_def Let_def get_conversation_def find_touch)

lemma ccm_title [simp]:
  "stored_title (snd (create_chat_message cid r c m rid fr pt ct tt el s)) u = stored_title s u"
  by (auto simp: create_chat_message_def Let_def get_conversation_def find_touch stored_title_def
        touch_def option.map_comp comp_def intro!: option.map_cong)

lemma ccm_msgs:
  "\<exists>rest. chat_messages (snd (create_chat_message cid r c m rid fr pt ct tt el s)) = chat_messages s @ rest"
  by (simp add: create_chat_message_def Let_def)

lemma ccm_ok:
  assumes "commit_faults s = []" "get_conversation s cid \<noteq> None"
  shows "\<exists>msg s'. create_chat_message cid r c m rid fr pt ct tt el s = (Inr msg, s')
          \<and> chat_messages s' = chat_messages s @ [msg]
          \<and> cm_conversation_id msg = cid \<and> cm_role msg = r \<and> cm_content msg = c"
  using assms by (simp add: create_chat_message_def Let_def commit_raises_def)

subsection \<open>Saving the incoming messages\<close>

lemma si_faults [simp]:
  "commit_faults (snd (save_incoming cid n rid msgs s)) = commit_faults s"
proof (induction msgs arbitrary: s)
  case Nil
  then show ?case by simp
next
  case (Cons a msgs)
  obtain r s' where c: "create_chat_message cid (msg_role a) (msg_content a) (Some n) (Some rid) None None None None None s = (r, s')"
    by (cases "create_chat_message cid (msg_role a) (msg_content a) (Some n) (Some rid) None None None None None s")
  have f: "commit_faults s' = commit_faults s"
    using ccm_faults[of cid "msg_role a" "msg_content a" "Some n" "Some rid" None None None None None s] c by simp
  show ?case using c f Cons.IH[of s'] by (cases r) simp_all
qed

lemma si_exists [simp]:
  "(get_conversation (snd (save_incoming cid n rid msgs s)) u = None) = (get_conversation s u = None)"
proof (induction msgs arbitrary: s)
  case Nil
  then show ?case by simp
next
  case (Cons a msgs)
  obtain r s' where c: "create_chat_message cid (msg_role a) (msg_content a) (Some n) (Some rid) None None None None None s = (r, s')"
    by (cases "create_chat_message cid (msg_role a) (msg_content a) (Some n) (Some rid) None None None None None s")
  have f: "(get_conversation s' u = None) = (get_conversation s u = None)"
    using ccm_exists[of cid "msg_role a" "msg_content a" "Some n" "Some rid" None None None None None s u] c by simp
  show ?case using c f Cons.IH[of s'] by (cases r) simp_all
qed

lemma si_title [simp]:
  "stored_title (snd (save_incoming cid n rid msgs s)) u = stored_title s u"
proof (induction msgs arbitrary: s)
  case Nil
  then show ?case by simp
next
  case (Cons a msgs)
  obtain r s' where c: "create_chat_message cid (msg_role a) (msg_content a) (Some n) (Some rid) None None None None None s = (r, s')"
    by (cases "create_chat_message cid (msg_role a) (msg_content a) (Some n) (Some rid) None None None None None s")
  have f: "stored_title s' u = stored_title s u"
    using ccm_title[of cid "msg_role a" "msg_content a" "Some n" "Some rid" None None None None None s u] c by simp
  show ?case using c f Cons.IH[of s'] by (cases r) simp_all
qed

lemma si_ok:
  assumes "commit_faults s = []" "get_conversation s cid \<noteq> None"
  shows "\<exists>new. fst (save_incoming cid n rid msgs s) = Inr ()
          \<and> chat_messages (snd (save_incoming cid n rid msgs s)) = chat_messages s @ new
          \<and> map as_incoming new = msgs
          \<and> filter (\<lambda>m. cm_conversation_id m = cid) new = new"
  using assms
proof (induction msgs arbitrary: s)
  case Nil
  then show ?case by simp
next
  case (Cons a msgs)
  obtain msg s' where m:
      "create_chat_message cid (msg_role a) (msg_content a) (Some n) (Some rid)
         None None None None None s = (Inr msg, s')"
      "chat_messages s' = chat_messages s @ [msg]"
      "cm_conversation_id msg = cid" "cm_role msg = msg_role a" "cm_content msg = msg_content a"
    using ccm_ok[OF Cons.prems, of "msg_role a" "msg_content a" "Some n" "Some rid" None None None None None]
    by blast
  have f: "commit_faults s' = []"
    using Cons.prems(1) m(1)
      ccm_faults[of cid "msg_role a" "msg_content a" "Some n" "Some rid" None None None None None s]
    by simp
  have g: "get_conversation s' cid \<noteq> None"
    using Cons.prems(2) m(1)
      ccm_exists[of cid "msg_role a" "msg_content a" "Some n" "Some rid" None None None None None s cid]
    by simp
  obtain new where n: "fst (save_incoming cid n rid msgs s') = Inr ()"
      "chat_messages (snd (save_incoming cid n rid msgs s')) = chat_messages s' @ new"
      "map as_incoming new = msgs" "filter (\<lambda>m. cm_conversation_id m = cid) new = new"
    using Cons.IH[OF f g] by blast
  have step: "save_incoming cid n rid (a # msgs) s = save_incoming cid n rid msgs s'"
    by (simp add: m(1))
  have conv: "as_incoming msg = a"
    using m(4,5) by (simp add: as_incoming_def)
  show ?case
    apply (rule exI[of _ "msg # new"])
    using n m(2,3) conv by (simp del: save_incoming.simps add: step)
qed

subsection \<open>What the later steps keep\<close>

lemma db_extends_refl [simp]: "db_extends s s"
  by (simp add: db_extends_def)

lemma db_extends_trans: "db_extends a b \<Longrightarrow> db_extends b c \<Longrightarrow> db_extends a c"
  by (auto simp: db_extends_def)

lemma ccm_extends:
  "create_chat_message cid r c m rid fr pt ct tt el s = (res, s') \<Longrightarrow> db_extends s s'"
  using ccm_faults[of cid r c m rid fr pt ct tt el s]
        ccm_title[of cid r c m rid fr pt ct tt el s]
        ccm_exists[of cid r c m rid fr pt ct tt el s]
        ccm_msgs[of cid r c m rid fr pt ct tt el s]
  by (simp add: db_extends_def)

lemma si_extends: "db_extends s (snd (save_incoming cid n rid msgs s))"
proof (induction msgs arbitrary: s)
  case Nil
  then show ?case by simp
next
  case (Cons a msgs)
  obtain r s' where c: "create_chat_message cid (msg_role a) (msg_content a) (Some n) (Some rid) None None None None None s = (r, s')"
    by (cases "create_chat_message cid (msg_role a) (msg_content a) (Some n) (Some rid) None None None None None s")
  have e1: "db_extends s s'" using ccm_extends[OF c] .
  show ?case
  proof (cases r)
    case (Inl err)
    then show ?thesis using c e1 by simp
  next
    case (Inr m)
    then show ?thesis using c db_extends_trans[OF e1 Cons.IH[of s']] by simp
  qed
qed

lemma save_streamed_extends: "db_extends (db w) (db (save_streamed e cid req rid v w))"
  by (auto simp: save_streamed_def split: option.splits prod.splits sum.splits dest: ccm_extends)

lemma send_usage_db [simp]: "db (send_usage st f p w) = db w"
  by (simp add: send_usage_def)

lemma event_gen_extends: "db_extends (db w) (db (snd (event_gen L st e cid req k rid w)))"
proof -
  have "\<And>w'. db w' = db w \<Longrightarrow> db_extends (db w) (db (save_streamed e cid req rid v w'))" for v
    using save_streamed_extends by metis
  then show ?thesis
    by (cases "stream_ending e") (simp_all add: event_gen_def Let_def case_prod_beta)
qed

lemma stream_with_timeout_db [simp]: "db (snd (stream_with_timeout r)) = db (snd r)"
  by (auto simp: stream_with_timeout_def split: prod.splits gen_exit.splits)

lemma stream_path_extends:
  "db_extends (db w) (db (snd (stream_path L st e req k rid cid w)))"
  using event_gen_extends[of w L st e cid req k rid]
        stream_with_timeout_db[of "event_gen L st e cid req k rid w"]
  by (simp add: stream_path_def case_prod_beta)

lemma stream_path_ok: "\<exists>evs. fst (stream_path L st e req k rid cid w) = Inr (StreamingResponse evs)"
  by (simp add: stream_path_def case_prod_beta)

lemma save_buffered_extends:
  "save_buffered e conv rid res s = (r, s') \<Longrightarrow> db_extends s s'"
  by (auto simp: save_buffered_def split: option.splits prod.splits sum.splits dest: ccm_extends)

lemma set_cached_db [simp]: "db (set_cached_response st k v w) = db w"
  by (simp add: set_cached_response_def redis_set_def)

lemma non_stream_path_extends:
  "db_extends (db w) (db (snd (non_stream_path L st e req k idem rid conv w)))"
  by (auto simp: non_stream_path_def Let_def split: sum.splits prod.splits option.splits
        dest: save_buffered_extends)

lemma save_buffered_ok:
  assumes "commit_faults s = []" "conv = Some c" "get_conversation s (conv_id c) \<noteq> None"
  shows "\<exists>s'. save_buffered e conv rid res s = (Inr (), s')"
proof -
  obtain msg s' where "create_chat_message (conv_id c) ''assistant'' (res_content res)
                  (Some (res_model res)) (Some rid) (res_finish_reason res)
                  (usage_get (res_usage res) ''prompt_tokens'')
                  (usage_get (res_usage res) ''completion_tokens'')
                  (usage_get (res_usage res) ''total_tokens'')
                  (Some (elapsed_save e)) s = (Inr msg, s')"
    using ccm_ok[OF assms(1,3)] by blast
  then show ?thesis using assms(2) by (simp add: save_buffered_def)
qed

lemma non_stream_path_ok:
  assumes "commit_faults (db w) = []" "conv = Some c" "get_conversation (db w) (conv_id c) \<noteq> None"
  shows "(\<exists>body. fst (non_stream_path L st e req k idem rid conv w) = Inr (JSONResponse body))
       \<or> (\<exists>m. fst (non_stream_path L st e req k idem rid conv w) = Inl (ProviderError m)
              \<and> gen_result e = Inl m)"
proof (cases "gen_result e")
  case (Inl m)
  then show ?thesis by (simp add: non_stream_path_def Let_def)
next
  case (Inr res)
  obtain s' where "save_buffered e conv rid res (db w) = (Inr (), s')"
    using save_buffered_ok[OF assms] by blast
  then show ?thesis using Inr by (simp add: non_stream_path_def Let_def)
qed

subsection \<open>Creating the conversation\<close>

lemma find_append_None: "find P xs = None \<Longrightarrow> find P (xs @ ys) = find P ys"
  by (induction xs) (auto split: if_splits)

lemma first_user_title_find:
  "first_user_title msgs =
     map_option (\<lambda>m. if length (msg_content m) > 100 then take 100 (msg_content m) @ ''...''
                      else msg_content m)
       (find (\<lambda>m. msg_role m = ''user'') msgs)"
  by (induction msgs) simp_all

lemma create_conversation_new:
  assumes "\<not> commit_raises s" "get_conversation s (next_uuid s) = None"
  shows "\<exists>c s1. create_conversation title h s = (Inr c, s1)
          \<and> conv_id c = next_uuid s
          \<and> get_conversation s1 (next_uuid s) = Some c
          \<and> conv_title c = title
          \<and> commit_faults s1 = commit_faults s
          \<and> chat_messages s1 = chat_messages s"
  using assms
  by (simp add: create_conversation_def Let_def get_conversation_def find_append_None)

lemma record_incoming_new:
  assumes "lookup_conversation L (mr_conversation_id p) s = None"
      and "\<not> commit_raises s" and "get_conversation s (next_uuid s) = None"
  shows "\<exists>r s'. record_incoming L p key rid n s = (r, s')
          \<and> stored_title s' (next_uuid s) = Some (first_user_title (mr_messages p))"
proof -
  obtain c s1 where c: "create_conversation (first_user_title (mr_messages p)) (Some (key_hash L key)) s = (Inr c, s1)"
      "conv_id c = next_uuid s" "get_conversation s1 (next_uuid s) = Some c"
      "conv_title c = first_user_title (mr_messages p)"
    using create_conversation_new[OF assms(2,3)] by blast
  have t1: "stored_title s1 (next_uuid s) = Some (first_user_title (mr_messages p))"
    using c(3,4) by (simp add: stored_title_def)
  let ?si = "save_incoming (next_uuid s) n rid (mr_messages p) s1"
  have ext: "db_extends s1 (snd ?si)" by (rule si_extends)
  have t2: "stored_title (snd ?si) (next_uuid s) = Some (first_user_title (mr_messages p))"
    using ext t1 by (simp add: db_extends_def)
  have "snd (record_incoming L p key rid n s) = snd ?si"
    using assms(1) c(1,2) by (simp add: record_incoming_def split: prod.splits sum.splits)
  then show ?thesis using t2 by (metis prod.collapse)
qed

lemma record_incoming_new_ok:
  assumes "lookup_conversation L (mr_conversation_id p) s = None"
      and "commit_faults s = []" and "fresh_uuid s"
  shows "\<exists>c s' new. record_incoming L p key rid n s = (Inr c, s')
          \<and> conv_id c = next_uuid s
          \<and> get_conversation s' (next_uuid s) \<noteq> None
          \<and> commit_faults s' = []
          \<and> chat_messages s' = chat_messages s @ new
          \<and> map as_incoming new = mr_messages p
          \<and> filter (\<lambda>m. cm_conversation_id m = next_uuid s) new = new"
proof -
  have nr: "\<not> commit_raises s" using assms(2) by (simp add: commit_raises_def)
  have fr: "get_conversation s (next_uuid s) = None" using assms(3) by (simp add: fresh_uuid_def)
  obtain c s1 where c: "create_conversation (first_user_title (mr_messages p)) (Some (key_hash L key)) s = (Inr c, s1)"
      "conv_id c = next_uuid s" "get_conversation s1 (next_uuid s) = Some c"
      "commit_faults s1 = commit_faults s" "chat_messages s1 = chat_messages s"
    using create_conversation_new[OF nr fr] by blast
  let ?si = "save_incoming (next_uuid s) n rid (mr_messages p) s1"
  have f1: "commit_faults s1 = []" using c(4) assms(2) by simp
  have g1: "get_conversation s1 (next_uuid s) \<noteq> None" using c(3) by simp
  obtain new where new: "fst ?si = Inr ()" "chat_messages (snd ?si) = chat_messages s1 @ new"
      "map as_incoming new = mr_messages p"
      "filter (\<lambda>m. cm_conversation_id m = next_uuid s) new = new"
    using si_ok[OF f1 g1, of n rid "mr_messages p"] by blast
  obtain s2 where s2: "?si = (Inr (), s2)" using new(1) by (metis prod.collapse)
  have r: "record_incoming L p key rid n s = (Inr c, s2)"
    using assms(1) c(1,2) s2 by (simp add: record_incoming_def)
  have e: "get_conversation s2 (next_uuid s) \<noteq> None"
    using si_exists[of "next_uuid s" n rid "mr_messages p" s1 "next_uuid s"] s2 g1 by simp
  have f: "commit_faults s2 = []"
    using si_faults[of "next_uuid s" n rid "mr_messages p" s1] s2 f1 by simp
  show ?thesis
    using r c(2) e f new(2,3,4) s2 c(5) by auto
qed

subsection \<open>A request not answered from the cache\<close>

lemma handle_fresh_title:
  assumes "lookup_conversation L (mr_conversation_id p) (db w) = None"
      and "\<not> commit_raises (db w)" and "get_conversation (db w) (next_uuid (db w)) = None"
  shows "stored_title (db (snd (handle_fresh L st e p key idem rid True w))) (next_uuid (db w))
           = Some (first_user_title (mr_messages p))"
proof -
  let ?n = "resolve_provider (mr_model p)"
  obtain r s' where r: "record_incoming L p key rid ?n (db w) = (r, s')"
      "stored_title s' (next_uuid (db w)) = Some (first_user_title (mr_messages p))"
    using record_incoming_new[OF assms] by blast
  show ?thesis
  proof (cases r)
    case (Inl err)
    then show ?thesis using r by (simp add: handle_fresh_def Let_def)
  next
    case (Inr c)
    have a: "db_extends s' (db (snd (stream_path L st e (make_request p ?n) key rid (Some (conv_id c)) (w\<lparr>db := s'\<rparr>))))"
      using stream_path_extends[of "w\<lparr>db := s'\<rparr>"] by simp
    have b: "db_extends s' (db (snd (non_stream_path L st e (make_request p ?n) key idem rid (Some c) (w\<lparr>db := s'\<rparr>))))"
      using non_stream_path_extends[of "w\<lparr>db := s'\<rparr>"] by simp
    show ?thesis
      using Inr r a b by (simp add: handle_fresh_def Let_def db_extends_def)
  qed
qed

lemma handle_fresh_ok:
  assumes "lookup_conversation L (mr_conversation_id p) (db w) = None"
      and "commit_faults (db w) = []" and "fresh_uuid (db w)"
  shows "get_conversation (db (snd (handle_fresh L st e p key idem rid True w))) (next_uuid (db w)) \<noteq> None
       \<and> take (length (mr_messages p))
           (map as_incoming (messages_of (db (snd (handle_fresh L st e p key idem rid True w)))
                               (next_uuid (db w)))) = mr_messages p
       \<and> ((\<exists>r. fst (handle_fresh L st e p key idem rid True w) = Inr r)
          \<or> (\<exists>m. fst (handle_fresh L st e p key idem rid True w) = Inl (ProviderError m)
                 \<and> gen_result e = Inl m \<and> \<not> mr_stream p))"
proof -
  let ?n = "resolve_provider (mr_model p)"
  let ?u = "next_uuid (db w)"
  obtain c s' new where r: "record_incoming L p key rid ?n (db w) = (Inr c, s')"
      "conv_id c = ?u" "get_conversation s' ?u \<noteq> None" "commit_faults s' = []"
      "chat_messages s' = chat_messages (db w) @ new" "map as_incoming new = mr_messages p"
      "filter (\<lambda>m. cm_conversation_id m = ?u) new = new"
    using record_incoming_new_ok[OF assms] by blast
  have old: "filter (\<lambda>m. cm_conversation_id m = ?u) (chat_messages (db w)) = []"
    using assms(3) by (simp add: fresh_uuid_def)
  have len: "length new = length (mr_messages p)"
    using r(6) by (metis length_map)
  have msgs: "take (length (mr_messages p)) (map as_incoming (messages_of sf ?u)) = mr_messages p"
    if ext: "db_extends s' sf" for sf
  proof -
    obtain rest where "chat_messages sf = chat_messages s' @ rest"
      using ext unfolding db_extends_def by blast
    then have "messages_of sf ?u = new @ filter (\<lambda>m. cm_conversation_id m = ?u) rest"
      using r(5,7) old by (simp add: messages_of_def)
    then show ?thesis using r(6) len by simp
  qed
  have ex: "get_conversation sf ?u \<noteq> None" if "db_extends s' sf" for sf
    using that r(3) by (simp add: db_extends_def)
  show ?thesis
  proof (cases "mr_stream p")
    case True
    let ?sp = "stream_path L st e (make_request p ?n) key rid (Some (conv_id c)) (w\<lparr>db := s'\<rparr>)"
    have h: "handle_fresh L st e p key idem rid True w = ?sp"
      using r(1) True by (simp add: handle_fresh_def Let_def)
    have a: "db_extends s' (db (snd ?sp))"
      using stream_path_extends[of "w\<lparr>db := s'\<rparr>"] by simp
    have k: "\<exists>evs. fst ?sp = Inr (StreamingResponse evs)" by (rule stream_path_ok)
    show ?thesis unfolding h using msgs[OF a] ex[OF a] k by auto
  next
    case False
    let ?np = "non_stream_path L st e (make_request p ?n) key idem rid (Some c) (w\<lparr>db := s'\<rparr>)"
    have h: "handle_fresh L st e p key idem rid True w = ?np"
      using r(1) False by (simp add: handle_fresh_def Let_def)
    have a: "db_extends s' (db (snd ?np))"
      using non_stream_path_extends[of "w\<lparr>db := s'\<rparr>"] by simp
    have k: "(\<exists>body. fst ?np = Inr (JSONResponse body))
           \<or> (\<exists>m. fst ?np = Inl (ProviderError m) \<and> gen_result e = Inl m)"
      by (rule non_stream_path_ok[of "w\<lparr>db := s'\<rparr>" "Some c" c]) (use r(2,3,4) in simp_all)
    show ?thesis unfolding h using msgs[OF a] ex[OF a] k False by auto
  qed
qed

lemma lookup_no_id [simp]: "lookup_conversation L None s = None"
  by (simp add: lookup_conversation_def)

lemma record_incoming_ignores_unusable_id:
  assumes "lookup_conversation L (mr_conversation_id p) s = None"
  shows "record_incoming L (p\<lparr>mr_conversation_id := None\<rparr>) key rid n s
           = record_incoming L p key rid n s"
  using assms by (simp add: record_incoming_def cong: prod.case_cong sum.case_cong)

lemma handle_fresh_ignores_unusable_id:
  assumes "lookup_conversation L (mr_conversation_id p) (db w) = None"
  shows "handle_fresh L st e p key idem rid sess w
           = handle_fresh L st e (p\<lparr>mr_conversation_id := None\<rparr>) key idem rid sess w"
  by (simp add: handle_fresh_def make_request_def Let_def
        record_incoming_ignores_unusable_id[OF assms]
        cong: prod.case_cong sum.case_cong if_cong)

section \<open>Properties of the canonical handler\<close>

lemmas eval_defs =
  create_message_def canonical_handler_def handle_fresh_def cache_lookup_def admit_def
  api_key_or_public_def record_incoming_def lookup_conversation_def get_conversation_def
  create_conversation_def create_chat_message_def commit_raises_def touch_def
  non_stream_path_def save_buffered_def response_body_def usage_payload_def usage_get_def
  send_usage_def set_cached_response_def redis_set_def get_cached_response_def redis_get_def
  resolve_provider_def make_request_def key_hash_def str_int_def digits10.simps digit_char_def
  opt_str_def opt_usage_def opt_int_def truthy_json_def
  sample_lib_def sample_settings_def sample_env_def sample_request_def sample_full_def
  empty_world_def empty_store_def Let_def

text \<open>
  Claim C9: a non-streamed request whose idempotency key hits the cache gets the cached body,
  and nothing else happens: the database, the calls made on the provider, the usage events,
  the cache and the log are what they were. The only state touched is the limiter of the
  API key, acquired before the lookup. A hit is a non-empty key whose cached value is true
  in Python's sense, as the test \<^verbatim>\<open>if cached\<close> asks.
\<close>

theorem C9_cache_hit_has_no_other_effect:
  assumes "k \<noteq> []" and "\<not> mr_stream payload"
      and "get_cached_response k w = Some cached" and "truthy_json cached"
  shows "fst (canonical_handler L st e payload api_key (Some k) rid session w)
           = Inr (JSONResponse cached)
       \<and> db (snd (canonical_handler L st e payload api_key (Some k) rid session w)) = db w
       \<and> provider_calls (snd (canonical_handler L st e payload api_key (Some k) rid session w))
           = provider_calls w
       \<and> usage_posts (snd (canonical_handler L st e payload api_key (Some k) rid session w))
           = usage_posts w
       \<and> idem_cache (snd (canonical_handler L st e payload api_key (Some k) rid session w))
           = idem_cache w
       \<and> log (snd (canonical_handler L st e payload api_key (Some k) rid session w)) = log w"
proof -
  have "canonical_handler L st e payload api_key (Some k) rid session w
          = (Inr (JSONResponse cached), admit api_key w)"
    using assms by (simp add: canonical_handler_def cache_lookup_def Let_def)
  then show ?thesis by simp
qed

theorem C9_cache_hit_has_no_other_effect_witness:
  "fst (canonical_handler sample_lib sample_settings sample_env (sample_request False None)
          ''public'' (Some ''k1'') ''req-2'' True cached_world)
     = Inr (JSONResponse (JDict [(''id'', JStr ''r'')]))
   \<and> db (snd (canonical_handler sample_lib sample_settings sample_env (sample_request False None)
          ''public'' (Some ''k1'') ''req-2'' True cached_world)) = empty_store
   \<and> provider_calls (snd (canonical_handler sample_lib sample_settings sample_env
          (sample_request False None) ''public'' (Some ''k1'') ''req-2'' True cached_world)) = []
   \<and> usage_posts (snd (canonical_handler sample_lib sample_settings sample_env
          (sample_request False None) ''public'' (Some ''k1'') ''req-2'' True cached_world)) = []"
  using C9_cache_hit_has_no_other_effect
          [of "''k1''" "sample_request False None" cached_world "JDict [(''id'', JStr ''r'')]"
              sample_lib sample_settings sample_env "''public''" "''req-2''" True]
  by (simp add: cached_world_def empty_world_def sample_request_def get_cached_response_def
        redis_get_def truthy_json_def)

text \<open>
  Claim C8: a request on the canonical endpoint that creates a new conversation (it is not
  answered from the cache, names no usable conversation, the insert commits, and
  \<^verbatim>\<open>uuid4\<close> draws an unused identifier) stores as title the content of its first
  user-role message, verbatim up to 100 characters, otherwise its first 100 characters
  followed by three dots. The title is read from the database the handler leaves behind.
\<close>

theorem C8_new_conversation_title:
  assumes "lookup_conversation L (mr_conversation_id payload) (db w) = None"
      and "cache_lookup idem (mr_stream payload) (admit (api_key_or_public x_api_key) w) = None"
      and "\<not> commit_raises (db w)"
      and "get_conversation (db w) (next_uuid (db w)) = None"
      and "find (\<lambda>m. msg_role m = ''user'') (mr_messages payload) = Some msg"
  shows "stored_title (db (snd (create_message L st e payload rid idem x_api_key w)))
           (next_uuid (db w))
         = Some (Some (if length (msg_content msg) \<le> 100 then msg_content msg
                       else take 100 (msg_content msg) @ ''...''))"
proof -
  let ?w1 = "admit (api_key_or_public x_api_key) w"
  have h: "create_message L st e payload rid idem x_api_key w
             = handle_fresh L st e payload (api_key_or_public x_api_key) idem rid True ?w1"
    using assms(2) by (simp add: create_message_def canonical_handler_def Let_def)
  have t: "stored_title (db (snd (handle_fresh L st e payload (api_key_or_public x_api_key) idem rid True ?w1)))
             (next_uuid (db ?w1)) = Some (first_user_title (mr_messages payload))"
    by (rule handle_fresh_title) (use assms(1,3,4) in simp_all)
  have f: "first_user_title (mr_messages payload)
             = Some (if length (msg_content msg) \<le> 100 then msg_content msg
                     else take 100 (msg_content msg) @ ''...'')"
    using assms(5) by (simp add: first_user_title_find)
  show ?thesis using h t f by simp
qed

theorem C8_new_conversation_title_witness:
  "stored_title
     (db (snd (create_message sample_lib sample_settings sample_env
                 (titled_request (replicate 101 (CHR ''a''))) ''req-1'' None None empty_world)))
     0
   = Some (Some (replicate 100 (CHR ''a'') @ ''...''))"
  using C8_new_conversation_title
          [of sample_lib "titled_request (replicate 101 (CHR ''a''))" empty_world None None
              "\<lparr>msg_role = ''user'', msg_content = replicate 101 (CHR ''a'')\<rparr>"
              sample_settings sample_env "''req-1''"]
  by (simp add: titled_request_def empty_world_def empty_store_def cache_lookup_def
        commit_raises_def get_conversation_def)

text \<open>
  Claim C10, as amended: take a request on the canonical endpoint whose
  \<^verbatim>\<open>conversation_id\<close> does not parse as a UUID, or names no stored conversation, and which
  is not answered from the idempotency cache, with a database that commits and a fresh
  identifier. It is handled exactly as the same request without a \<^verbatim>\<open>conversation_id\<close>, a
  new conversation exists afterwards, the messages stored under it begin with the request's
  messages in order, and the only error the handler can return is the provider's own on the
  non-stream path.
\<close>

theorem C10_unusable_conversation_id_starts_a_fresh_conversation:
  assumes "mr_conversation_id payload = Some x"
      and "uuid_parse L x = None
           \<or> (\<exists>u. uuid_parse L x = Some u \<and> get_conversation (db w) u = None)"
      and "cache_lookup idem (mr_stream payload) (admit (api_key_or_public x_api_key) w) = None"
      and "commit_faults (db w) = []"
      and "fresh_uuid (db w)"
  shows "create_message L st e payload rid idem x_api_key w
           = create_message L st e (payload\<lparr>mr_conversation_id := None\<rparr>) rid idem x_api_key w
       \<and> get_conversation (db (snd (create_message L st e payload rid idem x_api_key w)))
           (next_uuid (db w)) \<noteq> None
       \<and> take (length (mr_messages payload))
           (map as_incoming
              (messages_of (db (snd (create_message L st e payload rid idem x_api_key w)))
                 (next_uuid (db w))))
           = mr_messages payload
       \<and> ((\<exists>r. fst (create_message L st e payload rid idem x_api_key w) = Inr r)
          \<or> (\<exists>m. fst (create_message L st e payload rid idem x_api_key w) = Inl (ProviderError m)
                 \<and> gen_result e = Inl m \<and> \<not> mr_stream payload))"
proof -
  let ?k = "api_key_or_public x_api_key"
  let ?w1 = "admit ?k w"
  have lk: "lookup_conversation L (mr_conversation_id payload) (db ?w1) = None"
    using assms(1,2) by (auto simp: lookup_conversation_def)
  have h: "create_message L st e payload rid idem x_api_key w
             = handle_fresh L st e payload ?k idem rid True ?w1"
    using assms(3) by (simp add: create_message_def canonical_handler_def Let_def)
  have h': "create_message L st e (payload\<lparr>mr_conversation_id := None\<rparr>) rid idem x_api_key w
             = handle_fresh L st e (payload\<lparr>mr_conversation_id := None\<rparr>) ?k idem rid True ?w1"
    using assms(3) by (simp add: create_message_def canonical_handler_def Let_def)
  have eq: "handle_fresh L st e payload ?k idem rid True ?w1
              = handle_fresh L st e (payload\<lparr>mr_conversation_id := None\<rparr>) ?k idem rid True ?w1"
    by (rule handle_fresh_ignores_unusable_id[OF lk])
  have ok: "get_conversation (db (snd (handle_fresh L st e payload ?k idem rid True ?w1))) (next_uuid (db ?w1)) \<noteq> None
       \<and> take (length (mr_messages payload))
           (map as_incoming (messages_of (db (snd (handle_fresh L st e payload ?k idem rid True ?w1)))
                               (next_uuid (db ?w1)))) = mr_messages payload
       \<and> ((\<exists>r. fst (handle_fresh L st e payload ?k idem rid True ?w1) = Inr r)
          \<or> (\<exists>m. fst (handle_fresh L st e payload ?k idem rid True ?w1) = Inl (ProviderError m)
                 \<and> gen_result e = Inl m \<and> \<not> mr_stream payload))"
    by (rule handle_fresh_ok[OF lk]) (use assms(4,5) in simp_all)
  show ?thesis
    using ok eq unfolding h h' by simp
qed

theorem C10_unusable_conversation_id_starts_a_fresh_conversation_witness:
  "create_message sample_lib sample_settings sample_env
       (sample_request False (Some ''not-a-uuid'')) ''req-1'' None None empty_world
     = create_message sample_lib sample_settings sample_env
         (sample_request False None) ''req-1'' None None empty_world
   \<and> get_conversation
       (db (snd (create_message sample_lib sample_settings sample_env
                   (sample_request False (Some ''not-a-uuid'')) ''req-1'' None None empty_world)))
       0 \<noteq> None
   \<and> take 1
       (map as_incoming
          (messages_of
             (db (snd (create_message sample_lib sample_settings sample_env
                         (sample_request False (Some ''not-a-uuid'')) ''req-1'' None None
                         empty_world)))
             0))
     = [\<lparr>msg_role = ''user'', msg_content = ''hi''\<rparr>]"
proof -
  let ?p = "sample_request False (Some ''not-a-uuid'')"
  have 1: "mr_conversation_id ?p = Some ''not-a-uuid''"
    by (simp add: sample_request_def)
  have 2: "uuid_parse sample_lib ''not-a-uuid'' = None
           \<or> (\<exists>u. uuid_parse sample_lib ''not-a-uuid'' = Some u
                  \<and> get_conversation (db empty_world) u = None)"
    by (simp add: sample_lib_def)
  have 3: "cache_lookup None (mr_stream ?p) (admit (api_key_or_public None) empty_world) = None"
    by (simp add: cache_lookup_def)
  have 4: "commit_faults (db empty_world) = []"
    by (simp add: empty_world_def empty_store_def)
  have 5: "fresh_uuid (db empty_world)"
    by (simp add: fresh_uuid_def get_conversation_def empty_world_def empty_store_def)
  have n: "next_uuid (db empty_world) = 0"
    by (simp add: empty_world_def empty_store_def)
  have p: "?p\<lparr>mr_conversation_id := None\<rparr> = sample_request False None"
    by (simp add: sample_request_def)
  have m: "mr_messages ?p = [\<lparr>msg_role = ''user'', msg_content = ''hi''\<rparr>]"
    by (simp add: sample_request_def)
  note t = C10_unusable_conversation_id_starts_a_fresh_conversation
             [OF 1 2 3 4 5, of sample_settings sample_env "''req-1''"]
  have a: "create_message sample_lib sample_settings sample_env ?p ''req-1'' None None empty_world
             = create_message sample_lib sample_settings sample_env
                 (sample_request False None) ''req-1'' None None empty_world"
    using t[THEN conjunct1] by (simp only: p)
  have b: "get_conversation
             (db (snd (create_message sample_lib sample_settings sample_env ?p ''req-1'' None None
                         empty_world))) 0 \<noteq> None"
    using t[THEN conjunct2, THEN conjunct1] by (simp add: n)
  have c: "take 1
             (map as_incoming
                (messages_of
                   (db (snd (create_message sample_lib sample_settings sample_env ?p ''req-1'' None
                               None empty_world))) 0))
           = [\<lparr>msg_role = ''user'', msg_content = ''hi''\<rparr>]"
    using t[THEN conjunct2, THEN conjunct2, THEN conjunct1] by (simp add: n m)
  show ?thesis using a b c by blast
qed

text \<open>
  Claim C10 as stated fails on two requests whose \<^verbatim>\<open>conversation_id\<close> is not a UUID. The
  first presents an idempotency key that hits the cache: it gets the cached body, and no
  conversation is created and no message recorded. The second meets a provider that fails
  on the non-stream path: the handler returns that error.
\<close>

theorem C10_cache_hit_or_provider_failure:
  "create_message sample_lib sample_settings sample_env (sample_request False (Some ''not-a-uuid''))
     ''req-2'' (Some ''k1'') None cached_world
     = (Inr (JSONResponse (JDict [(''id'', JStr ''r'')])), admit ''public'' cached_world)
   \<and> conversations (db (admit ''public'' cached_world)) = []
   \<and> chat_messages (db (admit ''public'' cached_world)) = []
   \<and> fst (create_message sample_lib sample_settings
             (sample_env\<lparr>gen_result := Inl ''upstream down''\<rparr>)
             (sample_request False (Some ''not-a-uuid'')) ''req-1'' None None empty_world)
       = Inl (ProviderError ''upstream down'')"
  by (simp add: cached_world_def eval_defs)

section \<open>Properties of the idempotency cache\<close>

subsection \<open>What a buffered response leaves in the cache\<close>

lemma non_stream_path_cache:
  assumes "k \<noteq> []"
      and "non_stream_path L st e req key (Some k) rid conv w = (Inr (JSONResponse body), w')"
  shows "map_of (idem_cache w') (''idemp:'' @ k) = Some (body, now w + IDEMPOTENCY_TTL_SECONDS st)
       \<and> truthy_json body
       \<and> provider_calls w' = provider_calls w @ [Generate req]"
  using assms
  by (auto simp: non_stream_path_def Let_def set_cached_response_def redis_set_def send_usage_def
        response_body_def truthy_json_def split: sum.splits prod.splits if_splits)

lemma handle_fresh_cache:
  assumes "k \<noteq> []" and "\<not> mr_stream p"
      and "handle_fresh L st e p key (Some k) rid sess w = (Inr (JSONResponse body), w')"
  shows "map_of (idem_cache w') (''idemp:'' @ k) = Some (body, now w + IDEMPOTENCY_TTL_SECONDS st)
       \<and> truthy_json body
       \<and> length (provider_calls w') = Suc (length (provider_calls w))"
proof -
  have "\<exists>w2 conv. non_stream_path L st e (make_request p (resolve_provider (mr_model p)))
                         key (Some k) rid conv w2 = (Inr (JSONResponse body), w')
                   \<and> now w2 = now w \<and> provider_calls w2 = provider_calls w"
  proof (cases sess)
    case True
    then obtain s conv where "non_stream_path L st e (make_request p (resolve_provider (mr_model p)))
                         key (Some k) rid conv (w\<lparr>db := s\<rparr>) = (Inr (JSONResponse body), w')"
      using assms(2,3)
      by (auto simp: handle_fresh_def Let_def split: if_splits prod.splits sum.splits)
    then show ?thesis by (intro exI[of _ "w\<lparr>db := s\<rparr>"] exI[of _ conv]) simp
  next
    case False
    then have "non_stream_path L st e (make_request p (resolve_provider (mr_model p)))
                         key (Some k) rid None w = (Inr (JSONResponse body), w')"
      using assms(2,3) by (simp add: handle_fresh_def Let_def)
    then show ?thesis by (intro exI[of _ w] exI[of _ None]) simp
  qed
  then obtain w2 conv where n: "non_stream_path L st e (make_request p (resolve_provider (mr_model p)))
                         key (Some k) rid conv w2 = (Inr (JSONResponse body), w')"
      and w2: "now w2 = now w" "provider_calls w2 = provider_calls w"
    by blast
  show ?thesis using non_stream_path_cache[OF assms(1) n] w2 by simp
qed

lemma canonical_first:
  assumes "k \<noteq> []" and "\<not> mr_stream p"
      and "canonical_handler L st e p key (Some k) rid sess w = (Inr (JSONResponse body), w')"
  shows "\<exists>x. map_of (idem_cache w') (''idemp:'' @ k) = Some (body, x)
       \<and> truthy_json body
       \<and> length (provider_calls w') \<le> Suc (length (provider_calls w))"
proof (cases "cache_lookup (Some k) (mr_stream p) (admit key w)")
  case None
  then have "handle_fresh L st e p key (Some k) rid sess (admit key w) = (Inr (JSONResponse body), w')"
    using assms(3) by (simp add: canonical_handler_def Let_def)
  from handle_fresh_cache[OF assms(1,2) this] show ?thesis by simp
next
  case (Some cached)
  then have r: "body = cached" "w' = admit key w"
    using assms(3) by (simp_all add: canonical_handler_def Let_def)
  have "\<exists>x. map_of (idem_cache w) (''idemp:'' @ k) = Some (cached, x) \<and> truthy_json cached"
    using Some assms(1,2)
    by (auto simp: cache_lookup_def get_cached_response_def redis_get_def
          split: option.splits if_splits)
  then show ?thesis using r by auto
qed

lemma replay_hit:
  assumes "k \<noteq> []" and "\<not> mr_stream p"
      and "map_of (idem_cache w) (''idemp:'' @ k) = Some (body, x)" and "now w < x"
      and "truthy_json body"
  shows "canonical_handler L st e p key (Some k) rid sess w = (Inr (JSONResponse body), admit key w)"
  using assms
  by (simp add: canonical_handler_def Let_def cache_lookup_def get_cached_response_def redis_get_def)

subsection \<open>Streamed requests and the cache\<close>

lemma admit_cache: "admit k (w\<lparr>idem_cache := c\<rparr>) = (admit k w)\<lparr>idem_cache := c\<rparr>"
  by (simp add: admit_def split: option.splits)

lemma save_streamed_cache:
  "save_streamed e cid req rid v (w\<lparr>idem_cache := c\<rparr>) = (save_streamed e cid req rid v w)\<lparr>idem_cache := c\<rparr>"
  by (simp add: save_streamed_def split: option.splits prod.splits sum.splits)

lemma send_usage_cache:
  "send_usage st f p (w\<lparr>idem_cache := c\<rparr>) = (send_usage st f p w)\<lparr>idem_cache := c\<rparr>"
  by (simp add: send_usage_def)

lemma event_gen_cache:
  "event_gen L st e cid req k rid (w\<lparr>idem_cache := c\<rparr>)
     = (fst (event_gen L st e cid req k rid w), (snd (event_gen L st e cid req k rid w))\<lparr>idem_cache := c\<rparr>)"
proof -
  have a: "w\<lparr>idem_cache := c, provider_calls := pc\<rparr> = (w\<lparr>provider_calls := pc\<rparr>)\<lparr>idem_cache := c\<rparr>" for pc
    by simp
  have b: "w0\<lparr>idem_cache := c, log := l\<rparr> = (w0\<lparr>log := l\<rparr>)\<lparr>idem_cache := c\<rparr>" for w0 :: world and l
    by simp
  show ?thesis
    by (cases "stream_ending e")
       (simp_all add: event_gen_def Let_def case_prod_beta a b save_streamed_cache send_usage_cache
          del: world.update_convs)
qed

lemma stream_with_timeout_cache:
  "stream_with_timeout (x, w\<lparr>idem_cache := c\<rparr>)
     = (fst (stream_with_timeout (x, w)), (snd (stream_with_timeout (x, w)))\<lparr>idem_cache := c\<rparr>)"
  by (cases x; cases "snd x") (auto simp: stream_with_timeout_def)

lemma stream_path_cache:
  "stream_path L st e req k rid cid (w\<lparr>idem_cache := c\<rparr>)
     = (fst (stream_path L st e req k rid cid w), (snd (stream_path L st e req k rid cid w))\<lparr>idem_cache := c\<rparr>)"
  by (simp add: stream_path_def event_gen_cache stream_with_timeout_cache case_prod_beta)

lemma handle_fresh_stream_cache:
  assumes "mr_stream p"
  shows "handle_fresh L st e p key idem rid sess (w\<lparr>idem_cache := c\<rparr>)
     = (fst (handle_fresh L st e p key idem rid sess w),
        (snd (handle_fresh L st e p key idem rid sess w))\<lparr>idem_cache := c\<rparr>)"
proof -
  have a: "w\<lparr>idem_cache := c, db := s\<rparr> = (w\<lparr>db := s\<rparr>)\<lparr>idem_cache := c\<rparr>" for s
    by simp
  show ?thesis
    using assms
    by (simp add: handle_fresh_def Let_def a stream_path_cache
          split: prod.splits sum.splits del: world.update_convs)
qed

lemma canonical_stream_cache:
  assumes "mr_stream p"
  shows "canonical_handler L st e p key idem rid sess (w\<lparr>idem_cache := c\<rparr>)
     = (fst (canonical_handler L st e p key idem rid sess w),
        (snd (canonical_handler L st e p key idem rid sess w))\<lparr>idem_cache := c\<rparr>)"
proof -
  have n: "cache_lookup idem True w0 = None" for w0
    by (simp add: cache_lookup_def split: option.splits)
  show ?thesis
    using assms
    by (simp add: canonical_handler_def Let_def n admit_cache handle_fresh_stream_cache)
qed

subsection \<open>The two endpoints\<close>

lemmas oa_defs =
  serve_def chat_completions_def oa_response_def oa_usage_def dict_get_def str_field_def
  int_field_def opt_str_field_def opt_int_field_def

lemma sse_gen_cache:
  "sse_gen L st e req k rid (w\<lparr>idem_cache := c\<rparr>)
     = (fst (sse_gen L st e req k rid w), (snd (sse_gen L st e req k rid w))\<lparr>idem_cache := c\<rparr>)"
proof -
  have a: "w\<lparr>idem_cache := c, provider_calls := pc\<rparr> = (w\<lparr>provider_calls := pc\<rparr>)\<lparr>idem_cache := c\<rparr>" for pc
    by simp
  have b: "w0\<lparr>idem_cache := c, log := l\<rparr> = (w0\<lparr>log := l\<rparr>)\<lparr>idem_cache := c\<rparr>" for w0 :: world and l
    by simp
  show ?thesis
    by (cases "stream_ending e")
       (simp_all add: sse_gen_def Let_def case_prod_beta a b send_usage_cache
          del: world.update_convs)
qed

lemma chat_completions_stream_cache:
  "chat_completions_stream L st e p rid x (w\<lparr>idem_cache := c\<rparr>)
     = (fst (chat_completions_stream L st e p rid x w),
        (snd (chat_completions_stream L st e p rid x w))\<lparr>idem_cache := c\<rparr>)"
  by (simp add: chat_completions_stream_def Let_def admit_cache sse_gen_cache
        stream_with_timeout_cache)

lemma serve_stream_cache:
  assumes "mr_stream p"
  shows "serve ep L st e p rid idem x (w\<lparr>idem_cache := c\<rparr>)
     = (fst (serve ep L st e p rid idem x w), (snd (serve ep L st e p rid idem x w))\<lparr>idem_cache := c\<rparr>)"
proof (cases ep)
  case MessagesRoute
  then show ?thesis
    by (simp add: serve_def create_message_def canonical_stream_cache[OF assms])
next
  case ChatCompletionsRoute
  then show ?thesis
    using assms
    by (simp add: serve_def chat_completions_def Let_def chat_completions_stream_cache
          case_prod_beta)
qed

lemma serve_stream_frame:
  assumes "mr_stream p"
  shows "fst (serve ep L st e p rid idem x (w\<lparr>idem_cache := c\<rparr>)) = fst (serve ep L st e p rid idem x w)
       \<and> idem_cache (snd (serve ep L st e p rid idem x w)) = idem_cache w"
proof -
  have a: "fst (serve ep L st e p rid idem x (w\<lparr>idem_cache := c\<rparr>)) = fst (serve ep L st e p rid idem x w)"
    by (simp add: serve_stream_cache[OF assms])
  have "serve ep L st e p rid idem x (w\<lparr>idem_cache := idem_cache w\<rparr>)
          = (fst (serve ep L st e p rid idem x w),
             (snd (serve ep L st e p rid idem x w))\<lparr>idem_cache := idem_cache w\<rparr>)"
    by (rule serve_stream_cache[OF assms])
  then have "snd (serve ep L st e p rid idem x w)
               = (snd (serve ep L st e p rid idem x w))\<lparr>idem_cache := idem_cache w\<rparr>"
    by (metis snd_conv world.surjective world.update_convs(2))
  then have "idem_cache (snd (serve ep L st e p rid idem x w))
               = idem_cache ((snd (serve ep L st e p rid idem x w))\<lparr>idem_cache := idem_cache w\<rparr>)"
    by simp
  then have "idem_cache (snd (serve ep L st e p rid idem x w)) = idem_cache w"
    by simp
  then show ?thesis using a by simp
qed

text \<open>What a first request that returned a body has done in the canonical handler.\<close>

lemma serve_first:
  assumes "\<not> mr_stream p"
      and "serve ep L st e p rid idem x w = (Inr (JSONResponse body), w')"
  shows "\<exists>p' sess cbody.
           \<not> mr_stream p'
         \<and> canonical_handler L st e p' (api_key_or_public x) idem rid sess w
             = (Inr (JSONResponse cbody), w')
         \<and> (case ep of MessagesRoute \<Rightarrow> body = cbody
                      | ChatCompletionsRoute \<Rightarrow> oa_response cbody = Inr body)"
proof (cases ep)
  case MessagesRoute
  then have "canonical_handler L st e p (api_key_or_public x) idem rid True w
               = (Inr (JSONResponse body), w')"
    using assms(2) by (simp add: serve_def create_message_def)
  then show ?thesis using assms(1) MessagesRoute by auto
next
  case ChatCompletionsRoute
  let ?canon = "p\<lparr>mr_model := resolve_provider (mr_model p), mr_conversation_id := None\<rparr>"
  have s: "\<not> mr_stream ?canon" using assms(1) by simp
  obtain r w1 where c: "canonical_handler L st e ?canon (api_key_or_public x) idem rid False w = (r, w1)"
    by (cases "canonical_handler L st e ?canon (api_key_or_public x) idem rid False w")
  have "\<exists>cbody. r = Inr (JSONResponse cbody) \<and> w1 = w' \<and> oa_response cbody = Inr body"
    using assms ChatCompletionsRoute c
    by (auto simp: serve_def chat_completions_def Let_def
          split: sum.splits response.splits)
  then obtain cbody where b: "r = Inr (JSONResponse cbody)" "w1 = w'" "oa_response cbody = Inr body"
    by blast
  show ?thesis
    by (intro exI[of _ ?canon] exI[of _ False] exI[of _ cbody])
       (use s c b ChatCompletionsRoute in simp)
qed

lemma serve_replay:
  assumes "\<not> mr_stream p"
      and "\<And>p' sess. \<not> mr_stream p' \<Longrightarrow>
             canonical_handler L st e p' (api_key_or_public x) idem rid sess w
               = (Inr (JSONResponse cbody), admit (api_key_or_public x) w)"
      and "(case ep of MessagesRoute \<Rightarrow> body = cbody
                     | ChatCompletionsRoute \<Rightarrow> oa_response cbody = Inr body)"
  shows "serve ep L st e p rid idem x w = (Inr (JSONResponse body), admit (api_key_or_public x) w)"
proof (cases ep)
  case MessagesRoute
  then show ?thesis
    using assms(3) assms(2)[OF assms(1)] by (simp add: serve_def create_message_def)
next
  case ChatCompletionsRoute
  let ?canon = "p\<lparr>mr_model := resolve_provider (mr_model p), mr_conversation_id := None\<rparr>"
  have s: "\<not> mr_stream ?canon" using assms(1) by simp
  show ?thesis
    using assms(1,3) assms(2)[OF s] ChatCompletionsRoute
    by (simp add: serve_def chat_completions_def Let_def)
qed

text \<open>
  Claim C6, as amended: for two non-streamed requests on the same endpoint presenting the
  same non-empty idempotency key, if the first has returned a response body and the second
  starts in a state where the cache record of the key is the one the first request left
  (it starts after the first has written the record, and the record has not been evicted)
  and has not expired, then the second gets that same body and does not call the provider,
  and the first has called it at most once; and a streamed request on either endpoint
  neither reads the cache (its response is the same whatever the cache holds) nor changes
  it.
\<close>

theorem C6_idempotent_replay:
  assumes "k \<noteq> []" and "\<not> mr_stream p1" and "\<not> mr_stream p2"
      and "serve ep L st e1 p1 rid1 (Some k) x1 w0 = (Inr (JSONResponse body), w1)"
      and "map_of (idem_cache w2) (''idemp:'' @ k) = map_of (idem_cache w1) (''idemp:'' @ k)"
      and "within_ttl k (now w2) w2"
  shows "fst (serve ep L st e2 p2 rid2 (Some k) x2 w2) = Inr (JSONResponse body)
       \<and> provider_calls (snd (serve ep L st e2 p2 rid2 (Some k) x2 w2)) = provider_calls w2
       \<and> length (provider_calls w1) \<le> Suc (length (provider_calls w0))
       \<and> (\<forall>ep3 p3 e3 rid3 idem3 x3 w c.
            mr_stream p3 \<longrightarrow>
              fst (serve ep3 L st e3 p3 rid3 idem3 x3 (w\<lparr>idem_cache := c\<rparr>))
                = fst (serve ep3 L st e3 p3 rid3 idem3 x3 w)
              \<and> idem_cache (snd (serve ep3 L st e3 p3 rid3 idem3 x3 w)) = idem_cache w)"
proof -
  obtain p' sess cbody where f: "\<not> mr_stream p'"
      "canonical_handler L st e1 p' (api_key_or_public x1) (Some k) rid1 sess w0
         = (Inr (JSONResponse cbody), w1)"
      "(case ep of MessagesRoute \<Rightarrow> body = cbody
                 | ChatCompletionsRoute \<Rightarrow> oa_response cbody = Inr body)"
    using serve_first[OF assms(2,4)] by blast
  obtain t where t: "map_of (idem_cache w1) (''idemp:'' @ k) = Some (cbody, t)"
      "truthy_json cbody" "length (provider_calls w1) \<le> Suc (length (provider_calls w0))"
    using canonical_first[OF assms(1) f(1,2)] by blast
  have rec: "map_of (idem_cache w2) (''idemp:'' @ k) = Some (cbody, t)"
    using assms(5) t(1) by simp
  have live: "now w2 < t" using assms(6) rec by (simp add: within_ttl_def)
  have hit: "canonical_handler L st e2 q (api_key_or_public x2) (Some k) rid2 s w2
               = (Inr (JSONResponse cbody), admit (api_key_or_public x2) w2)"
    if "\<not> mr_stream q" for q s
    by (rule replay_hit[OF assms(1) that rec live t(2)])
  have second: "serve ep L st e2 p2 rid2 (Some k) x2 w2
                  = (Inr (JSONResponse body), admit (api_key_or_public x2) w2)"
    by (rule serve_replay[OF assms(3) hit f(3)])
  show ?thesis
    using second t(3) serve_stream_frame by simp
qed

text \<open>The theorem on the canonical endpoint, with a request under another key between the
  two and a later clock, on the OpenAI-compatible endpoint, and at a streamed request.\<close>

theorem C6_idempotent_replay_witness:
  "fst (serve MessagesRoute sample_lib sample_settings
          (sample_env\<lparr>gen_result := Inl ''upstream down''\<rparr>) (sample_request False (Some ''c0''))
          ''req-2'' (Some ''k1'') (Some ''other'') ((snd intervening_exchange)\<lparr>now := 100\<rparr>))
     = Inr (JSONResponse (response_body sample_lib (sample_full ''hello'') (Some 0)))
   \<and> provider_calls
        (snd (serve MessagesRoute sample_lib sample_settings
                (sample_env\<lparr>gen_result := Inl ''upstream down''\<rparr>)
                (sample_request False (Some ''c0''))
                ''req-2'' (Some ''k1'') (Some ''other'') ((snd intervening_exchange)\<lparr>now := 100\<rparr>)))
     = provider_calls (snd intervening_exchange)
   \<and> fst (serve ChatCompletionsRoute sample_lib sample_settings
            (sample_env\<lparr>gen_result := Inl ''upstream down''\<rparr>) (sample_request False None)
            ''req-2'' (Some ''k1'') (Some ''other'') (snd first_completion))
     = fst first_completion
   \<and> idem_cache
        (snd (serve MessagesRoute sample_lib sample_settings sample_env (sample_request True None)
                ''req-3'' (Some ''k1'') None (snd first_exchange)))
     = idem_cache (snd first_exchange)"
proof -
  let ?e = "sample_env\<lparr>gen_result := Inl ''upstream down''\<rparr>"
  let ?w2 = "(snd intervening_exchange)\<lparr>now := 100\<rparr>"
  have 1: "''k1'' \<noteq> []" by simp
  have 2: "\<not> mr_stream (sample_request False None)" by (simp add: sample_request_def)
  have 3: "\<not> mr_stream (sample_request False (Some ''c0''))" by (simp add: sample_request_def)
  have 4: "serve MessagesRoute sample_lib sample_settings sample_env (sample_request False None)
             ''req-1'' (Some ''k1'') None empty_world
           = (Inr (JSONResponse (response_body sample_lib (sample_full ''hello'') (Some 0))),
              snd first_exchange)"
    by (simp add: serve_def first_exchange_def eval_defs)
  have 5: "map_of (idem_cache ?w2) (''idemp:'' @ ''k1'')
             = map_of (idem_cache (snd first_exchange)) (''idemp:'' @ ''k1'')"
    by (simp add: intervening_exchange_def first_exchange_def eval_defs)
  have 6: "within_ttl ''k1'' (now ?w2) ?w2"
    by (simp add: within_ttl_def intervening_exchange_def first_exchange_def eval_defs)
  note m = C6_idempotent_replay[OF 1 2 3 4 5 6, of ?e "''req-2''" "Some ''other''"]
  have a: "fst (serve MessagesRoute sample_lib sample_settings ?e (sample_request False (Some ''c0''))
                  ''req-2'' (Some ''k1'') (Some ''other'') ?w2)
             = Inr (JSONResponse (response_body sample_lib (sample_full ''hello'') (Some 0)))"
    by (rule m[THEN conjunct1])
  have b: "provider_calls
             (snd (serve MessagesRoute sample_lib sample_settings ?e (sample_request False (Some ''c0''))
                     ''req-2'' (Some ''k1'') (Some ''other'') ?w2))
           = provider_calls (snd intervening_exchange)"
    using m[THEN conjunct2, THEN conjunct1] by simp
  have 7: "serve ChatCompletionsRoute sample_lib sample_settings sample_env
             (sample_request False None) ''req-1'' (Some ''k1'') None empty_world
           = (fst first_completion, snd first_completion)"
    by (simp add: serve_def first_completion_def)
  have 8: "fst first_completion
             = Inr (JSONResponse
                 (JDict [(''id'', JStr ''r''),
                         (''object'', JStr ''chat.completion''),
                         (''created'', JInt 17),
                         (''model'', JStr ''m''),
                         (''choices'',
                            JList [JDict [(''index'', JInt 0),
                                          (''message'', JDict [(''role'', JStr ''assistant''),
                                                               (''content'', JStr ''hello'')]),
                                          (''finish_reason'', JStr ''stop'')]]),
                         (''usage'', JDict [(''prompt_tokens'', JNull),
                                            (''completion_tokens'', JNull),
                                            (''total_tokens'', JNull)])]))"
    by (simp add: first_completion_def oa_defs eval_defs)
  have 9: "map_of (idem_cache (snd first_completion)) (''idemp:'' @ ''k1'')
             = map_of (idem_cache (snd first_completion)) (''idemp:'' @ ''k1'')"
    by simp
  have 10: "within_ttl ''k1'' (now (snd first_completion)) (snd first_completion)"
    by (simp add: within_ttl_def first_completion_def oa_defs eval_defs)
  have c: "fst (serve ChatCompletionsRoute sample_lib sample_settings ?e (sample_request False None)
                  ''req-2'' (Some ''k1'') (Some ''other'') (snd first_completion))
             = fst first_completion"
    using C6_idempotent_replay[OF 1 2 2 7[unfolded 8] 9 10, of ?e "''req-2''" "Some ''other''",
            THEN conjunct1]
    by (simp only: 8)
  have s: "mr_stream (sample_request True None)" by (simp add: sample_request_def)
  have d: "idem_cache
             (snd (serve MessagesRoute sample_lib sample_settings sample_env (sample_request True None)
                     ''req-3'' (Some ''k1'') None (snd first_exchange)))
           = idem_cache (snd first_exchange)"
    using m[THEN conjunct2, THEN conjunct2, THEN conjunct2] s by blast
  show ?thesis using a b c d by blast
qed

text \<open>
  Claim C6 as stated fails on four pairs of non-streamed requests under one key. When the
  provider call of the first request fails, nothing is cached, and the second request calls
  the provider again: two calls, and the second response is not the first. With an empty
  key the test \<^verbatim>\<open>if idem_key\<close> is false: nothing is cached, the provider is called twice
  and the two bodies differ. A second request that has looked the key up before the first
  one wrote its record calls the provider as well and gets a body of its own. And a second
  request on the OpenAI-compatible endpoint gets the body cached by the canonical endpoint
  in another shape.
\<close>

theorem C6_failed_blank_overlapping_or_cross_endpoint:
  "fst failed_exchange = Inl (ProviderError ''upstream down'')
   \<and> fst retry_exchange
       = Inr (JSONResponse (response_body sample_lib (sample_full ''hello'') (Some 2)))
   \<and> length (provider_calls (snd retry_exchange)) = 2
   \<and> fst blank_key_exchange
       = Inr (JSONResponse (response_body sample_lib (sample_full ''hello'') (Some 0)))
   \<and> fst blank_key_replay
       = Inr (JSONResponse (response_body sample_lib (sample_full ''other'') (Some 3)))
   \<and> length (provider_calls (snd blank_key_replay)) = 2
   \<and> fst first_exchange
       = Inr (JSONResponse (response_body sample_lib (sample_full ''hello'') (Some 0)))
   \<and> fst overlapping_exchange
       = Inr (JSONResponse (response_body sample_lib (sample_full ''other'') (Some 3)))
   \<and> length (provider_calls (snd overlapping_exchange)) = 2
   \<and> fst cross_endpoint_replay
       = Inr (JSONResponse
           (JDict [(''id'', JStr ''r''),
                   (''object'', JStr ''chat.completion''),
                   (''created'', JInt 17),
                   (''model'', JStr ''m''),
                   (''choices'',
                      JList [JDict [(''index'', JInt 0),
                                    (''message'', JDict [(''role'', JStr ''assistant''),
                                                         (''content'', JStr ''hello'')]),
                                    (''finish_reason'', JStr ''stop'')]]),
                   (''usage'', JDict [(''prompt_tokens'', JNull),
                                      (''completion_tokens'', JNull),
                                      (''total_tokens'', JNull)])]))"
  by (simp add: failed_exchange_def retry_exchange_def blank_key_exchange_def
        blank_key_replay_def first_exchange_def overlapping_exchange_def
        cross_endpoint_replay_def oa_defs eval_defs)


section \<open>Ownership of conversations\<close>

text \<open>The three conversation routes refuse a request whose key hash differs from the
  non-empty stored one.\<close>

lemma routes_deny_foreign_key:
  assumes "uuid_parse L cid = Some u" and "get_conversation s u = Some c"
      and "access_denied c (key_hash L (api_key_or_public x_api_key))"
  shows "get_conversation_history L cid x_api_key s
           = Inl (HTTPException 403 ''Access denied to this conversation'')"
    and "update_conversation_title L cid title x_api_key s
           = (Inl (HTTPException 403 ''Access denied to this conversation''), s)"
    and "delete_conversation_endpoint L cid x_api_key s
           = (Inl (HTTPException 403 ''Access denied to this conversation''), s)"
  using assms
  by (simp_all add: get_conversation_history_def get_conversation_with_messages_def
        update_conversation_title_def delete_conversation_endpoint_def)

text \<open>
  Claim C4 (a request presenting another key hash cannot read, update, delete or mutate the
  conversation, appending included) fails on the code. The conversation with identifier 0
  belongs to the key \<^verbatim>\<open>alice\<close>. A request with the key \<^verbatim>\<open>bob\<close> is refused by the three
  conversation routes, but the messages route, given the same conversation identifier, looks
  the conversation up without any ownership test and appends the request's message and the
  assistant's answer to it.
\<close>

theorem C4_other_key_appends_to_conversation:
  "get_conversation_history sample_lib ''c0'' (Some ''bob'') alice_store
     = Inl (HTTPException 403 ''Access denied to this conversation'')
   \<and> fst (update_conversation_title sample_lib ''c0'' ''mine'' (Some ''bob'') alice_store)
     = Inl (HTTPException 403 ''Access denied to this conversation'')
   \<and> fst (delete_conversation_endpoint sample_lib ''c0'' (Some ''bob'') alice_store)
     = Inl (HTTPException 403 ''Access denied to this conversation'')
   \<and> map (\<lambda>m. (cm_conversation_id m, cm_role m, cm_content m))
       (chat_messages (db (snd (create_message sample_lib sample_settings sample_env
           (sample_request False (Some ''c0'')) ''req-1'' None (Some ''bob'')
           (empty_world\<lparr>db := alice_store\<rparr>)))))
     = [(0, ''user'', ''hi''), (0, ''assistant'', ''hello'')]"
  by (simp add: get_conversation_history_def get_conversation_with_messages_def access_denied_def
       update_conversation_title_def delete_conversation_endpoint_def
       alice_store_def eval_defs)


section \<open>Persistence failures\<close>

text \<open>On the stream path a failed save of the assistant message changes nothing the client
  sees: the stream is the one of a run without the failure.\<close>

lemma stream_save_failure_is_swallowed:
  "fst (create_message sample_lib sample_settings sample_env
         (sample_request True None) ''req-1'' None None
         (empty_world\<lparr>db := empty_store\<lparr>commit_faults := [2]\<rparr>\<rparr>))
     = fst (create_message sample_lib sample_settings sample_env
         (sample_request True None) ''req-1'' None None empty_world)"
  by (simp add: eval_defs stream_path_def event_gen_def stream_with_timeout_def save_streamed_def
        usage_cancelled_def gen_init_def count_chunk_def sample_chunk_def stream_usage_payload_def)

text \<open>
  Claim C5 (a persistence failure is swallowed and never reaches the client) fails on the
  code. On a buffered request the provider answers, and the commit of the assistant message
  (the third commit of the request) fails: the exception leaves the handler and the client
  gets an error instead of the body. The same happens when the commit that creates the
  conversation (the first) fails. Without the failure the same request returns the body.
\<close>

theorem C5_persistence_failure_reaches_the_client:
  "fst (create_message sample_lib sample_settings sample_env
         (sample_request False None) ''req-1'' None None
         (empty_world\<lparr>db := empty_store\<lparr>commit_faults := [2]\<rparr>\<rparr>))
     = Inl PersistenceError
   \<and> fst (create_message sample_lib sample_settings sample_env
         (sample_request False None) ''req-1'' None None
         (empty_world\<lparr>db := empty_store\<lparr>commit_faults := [0]\<rparr>\<rparr>))
     = Inl PersistenceError
   \<and> fst (create_message sample_lib sample_settings sample_env
         (sample_request False None) ''req-1'' None None empty_world)
     = Inr (JSONResponse (response_body sample_lib (sample_full ''hello'') (Some 0)))"
  by (simp add: eval_defs)


section \<open>Resilience of the streaming call\<close>

lemma generate_stream_closed:
  assumes "mode s = BreakerClosed"
  shows "generate_stream st waits req s = (Inr (AsyncGen req), s\<lparr>fail_counter := 0\<rparr>)"
proof -
  have "breaker_call st (generate_stream_raw req) s = (Inr (AsyncGen req), s\<lparr>fail_counter := 0\<rparr>)"
    using assms by (simp add: breaker_call_def guarded_def generate_stream_raw_def)
  then show ?thesis
    by (cases "take 3 waits") (simp_all add: generate_stream_def)
qed

lemma provider_stream_closed:
  assumes "mode s = BreakerClosed"
  shows "provider_stream st waits upstream req s
           = (upstream (contacts s), s\<lparr>fail_counter := 0, contacts := Suc (contacts s)\<rparr>)"
  by (simp add: provider_stream_def generate_stream_closed[OF assms] iterate_gen_def)

lemma event_gen_calls_provider_once:
  "provider_calls (snd (event_gen L st e cid req k rid w)) = provider_calls w @ [GenerateStream req]"
  by (cases "stream_ending e")
     (auto simp: event_gen_def Let_def case_prod_beta save_streamed_def send_usage_def
        split: option.splits prod.splits sum.splits)


text \<open>
  Claim C7 (retry and circuit breaker cover stream establishment; later failures are
  terminal) fails on the code in its first half. The decorators wrap the call of an
  asynchronous generator function, which returns the generator without running it; the
  establishment happens at the first iteration, inside \<^verbatim>\<open>event_gen\<close>. With an upstream
  whose first contact fails and whose second would deliver a chunk, the decorated method
  contacts the upstream once, the failure reaches \<^verbatim>\<open>event_gen\<close> and goes out as the error
  event, and the breaker has counted nothing; establishment under the policies, as the
  claim describes it, would have delivered the chunk of the second contact.
\<close>

theorem C7_establishment_failure_is_not_retried:

  "provider_stream sample_settings [backoff, backoff, backoff] flaky_upstream sample_chat_request
       closed_breaker
     = (\<lparr>contact_chunks = [], contact_end = Raises ''connection reset''\<rparr>,
        closed_breaker\<lparr>contacts := 1\<rparr>)
   \<and> fst (stream_with_timeout
            (event_gen sample_lib sample_settings
               (with_stream sample_env
                  (fst (provider_stream sample_settings [backoff, backoff, backoff] flaky_upstream
                          sample_chat_request closed_breaker)))
               None sample_chat_request ''public'' ''req-1'' empty_world))
     = [sse_format (error_data ''connection reset''), done_sentinel]
   \<and> fst (spec_resilient_stream sample_settings [backoff, backoff, backoff] flaky_upstream
            sample_chat_request closed_breaker)
     = \<lparr>contact_chunks = [sample_chunk ''hi''], contact_end = Exhausted\<rparr>"
  by (simp add: provider_stream_closed closed_breaker_def flaky_upstream_def with_stream_def
        event_gen_def stream_with_timeout_def usage_cancelled_def sample_env_def gen_init_def
        Let_def spec_resilient_stream_def establish_def breaker_call_def guarded_def
        on_failure_def sample_settings_def backoff_def)

end
